theory Spec2Isabelle
  imports Main "HOL-Library.AList"
begin

section \<open>Data model (config/config.go, api/client.go)\<close>

text \<open>
  Go strings are byte sequences; they are modelled as \<open>string\<close> (a list of 8-bit
  characters). The conversions \<^verbatim>\<open>[]byte(s)\<close> and \<^verbatim>\<open>string(b)\<close> copy the bytes and are
  the identity here. A Go \<^verbatim>\<open>error\<close> is modelled by the text its \<^verbatim>\<open>Error()\<close> method returns:
  the source never inspects an error otherwise, and \<^verbatim>\<open>fmt.Errorf("p: %w", err)\<close> has the
  text \<^verbatim>\<open>"p: "\<close> followed by the text of \<^verbatim>\<open>err\<close>.
\<close>

type_synonym error = string

record Config =
  APIKey :: string
  OutlineURL :: string

record Document =
  ID :: string
  Title :: string
  Text :: string
  Version :: int

definition zero_Document :: Document where
  "zero_Document = \<lparr>ID = [], Title = [], Text = [], Version = 0\<rparr>"

section \<open>URL normalisation and endpoint URLs (api/client.go)\<close>

text \<open>
  \<^verbatim>\<open>strings.TrimRight(s, cutset)\<close> removes every trailing character of \<open>s\<close> that occurs in
  \<open>cutset\<close>. (For a cutset of ASCII characters, as here, Go works byte by byte.)
\<close>

definition TrimRight :: "string \<Rightarrow> string \<Rightarrow> string" where
  "TrimRight s cutset = rev (dropWhile (\<lambda>c. c \<in> set cutset) (rev s))"

definition normalizeURL :: "string \<Rightarrow> string" where
  "normalizeURL baseURL = TrimRight baseURL ''/''"

definition GetDocument_url :: "Config \<Rightarrow> string" where
  "GetDocument_url cfg = normalizeURL (OutlineURL cfg) @ ''/api/documents.info''"

definition UpdateDocument_url :: "Config \<Rightarrow> string" where
  "UpdateDocument_url cfg = normalizeURL (OutlineURL cfg) @ ''/api/documents.update''"

definition ListDocuments_url :: "Config \<Rightarrow> string" where
  "ListDocuments_url cfg = normalizeURL (OutlineURL cfg) @ ''/api/documents.list''"

section \<open>JSON decoding (the part of encoding/json that api/client.go relies on)\<close>

text \<open>
  \<^verbatim>\<open>json.Unmarshal(data, &v)\<close> first checks that \<open>data\<close> is one syntactically valid JSON
  text and then stores the parsed value into \<open>v\<close>. Both steps are modelled: the scanner
  below follows the state machine of Go's scanner character by character and builds the
  value as it goes; the functions \<open>dec_...\<close> store a value into a Go variable of a given
  type.
\<close>

datatype json = JNull | JBool bool | JNumber string | JString string
  | JArray "json list" | JObject "(string \<times> json) list"

text \<open>A number keeps its literal text; an object keeps its members in input order,
  duplicates included.\<close>

text \<open>The value of a byte, and of a code point, is an integer.\<close>

definition byte :: "char \<Rightarrow> int" where
  "byte c = of_char c"

definition between :: "int \<Rightarrow> char \<Rightarrow> int \<Rightarrow> bool" where
  "between lo c hi = (lo \<le> byte c \<and> byte c \<le> hi)"

definition isSpace :: "char \<Rightarrow> bool" where
  "isSpace c = (c = CHR '' '' \<or> c = CHR 0x09 \<or> c = CHR 0x0D \<or> c = CHR 0x0A)"

definition isDigit :: "char \<Rightarrow> bool" where
  "isDigit c = between 0x30 c 0x39"

definition isHex :: "char \<Rightarrow> bool" where
  "isHex c = (isDigit c \<or> between 0x61 c 0x66 \<or> between 0x41 c 0x46)"

definition hexval :: "char \<Rightarrow> int" where
  "hexval c = (if isDigit c then byte c - 0x30
     else if between 0x61 c 0x66 then byte c - 0x61 + 10
     else byte c - 0x41 + 10)"

subsection \<open>String literals: \<^verbatim>\<open>unquote\<close>\<close>

text \<open>\<open>getu4 s\<close> reads a \<^verbatim>\<open>\uXXXX\<close> escape at the start of \<open>s\<close>.\<close>

definition getu4 :: "string \<Rightarrow> int option" where
  "getu4 s = (case s of
      bs # u # a # b # c # d # _ \<Rightarrow>
        if bs = CHR 0x5C \<and> u = CHR ''u'' \<and> isHex a \<and> isHex b \<and> isHex c \<and> isHex d
        then Some (((hexval a * 16 + hexval b) * 16 + hexval c) * 16 + hexval d)
        else None
    | _ \<Rightarrow> None)"

text \<open>\<^verbatim>\<open>utf8.EncodeRune\<close>: the UTF-8 encoding of a code point; surrogates and values beyond
  U+10FFFF are encoded as U+FFFD.\<close>

definition EncodeRune :: "int \<Rightarrow> string" where
  "EncodeRune r =
     (if r < 0x80 then [char_of r]
      else if r < 0x800 then [char_of (0xC0 + r div 64), char_of (0x80 + r mod 64)]
      else if 0x10FFFF < r \<or> (0xD800 \<le> r \<and> r < 0xE000) then [CHR 0xEF, CHR 0xBF, CHR 0xBD]
      else if r < 0x10000 then
        [char_of (0xE0 + r div 4096), char_of (0x80 + r div 64 mod 64), char_of (0x80 + r mod 64)]
      else [char_of (0xF0 + r div 262144), char_of (0x80 + r div 4096 mod 64),
            char_of (0x80 + r div 64 mod 64), char_of (0x80 + r mod 64)])"

text \<open>The size that \<^verbatim>\<open>utf8.DecodeRune\<close> reports for the start of \<open>s\<close>, with 0 standing for
  an invalid encoding (Go reports \<^verbatim>\<open>RuneError\<close> of width 1 there).\<close>

definition DecodeRune_size :: "string \<Rightarrow> nat" where
  "DecodeRune_size s = (case s of
      [] \<Rightarrow> 0
    | b0 # t \<Rightarrow>
       if byte b0 < 0x80 then 1
       else if between 0xC2 b0 0xDF then
         (case t of b1 # _ \<Rightarrow> if between 0x80 b1 0xBF then 2 else 0 | _ \<Rightarrow> 0)
       else if between 0xE0 b0 0xEF then
         (case t of b1 # b2 # _ \<Rightarrow>
            if between (if b0 = CHR 0xE0 then 0xA0 else 0x80) b1 (if b0 = CHR 0xED then 0x9F else 0xBF)
               \<and> between 0x80 b2 0xBF then 3 else 0
          | _ \<Rightarrow> 0)
       else if between 0xF0 b0 0xF4 then
         (case t of b1 # b2 # b3 # _ \<Rightarrow>
            if between (if b0 = CHR 0xF0 then 0x90 else 0x80) b1 (if b0 = CHR 0xF4 then 0x8F else 0xBF)
               \<and> between 0x80 b2 0xBF \<and> between 0x80 b3 0xBF then 4 else 0
          | _ \<Rightarrow> 0)
       else 0)"

definition unescape :: "char \<Rightarrow> char option" where
  "unescape e =
     (if e = CHR 0x22 \<or> e = CHR 0x5C \<or> e = CHR ''/'' \<or> e = CHR 0x27 then Some e
      else if e = CHR ''b'' then Some (CHR 0x08)
      else if e = CHR ''f'' then Some (CHR 0x0C)
      else if e = CHR ''n'' then Some (CHR 0x0A)
      else if e = CHR ''r'' then Some (CHR 0x0D)
      else if e = CHR ''t'' then Some (CHR 0x09)
      else None)"

text \<open>The code point of a \<^verbatim>\<open>\uXXXX\<close> escape with value \<open>rr\<close>, given the escape that may
  follow it, and the number of input bytes used: a high surrogate followed by a low one
  is a pair; any other surrogate becomes U+FFFD.\<close>

definition u_rune :: "int \<Rightarrow> int option \<Rightarrow> int \<times> nat" where
  "u_rune rr nxt =
     (if 0xD800 \<le> rr \<and> rr < 0xE000 then
        (case nxt of
           Some rr1 \<Rightarrow>
             if rr < 0xDC00 \<and> 0xDC00 \<le> rr1 \<and> rr1 < 0xE000
             then ((rr - 0xD800) * 1024 + (rr1 - 0xDC00) + 0x10000, 12)
             else (0xFFFD, 6)
         | None \<Rightarrow> (0xFFFD, 6))
      else (rr, 6))"

text \<open>One iteration of the loop of \<^verbatim>\<open>unquoteBytes\<close>: the bytes written and the number of
  input bytes read; \<open>None\<close> where Go gives up (\<^verbatim>\<open>ok = false\<close>).\<close>

definition unquote_step :: "string \<Rightarrow> (string \<times> nat) option" where
  "unquote_step s =
     (case s of
        [] \<Rightarrow> None
      | c # t \<Rightarrow>
          if c = CHR 0x5C then
            (case t of
               [] \<Rightarrow> None
             | e # _ \<Rightarrow>
                 if e = CHR ''u''
                 then map_option (\<lambda>rr. apfst EncodeRune (u_rune rr (getu4 (drop 6 s)))) (getu4 s)
                 else map_option (\<lambda>d. ([d], 2)) (unescape e))
          else if c = CHR 0x22 \<or> byte c < 0x20 then None
          else if byte c < 0x80 then Some ([c], 1)
          else (case DecodeRune_size s of
                  0 \<Rightarrow> Some (EncodeRune 0xFFFD, 1)
                | Suc k \<Rightarrow> Some (take (Suc k) s, Suc k)))"

text \<open>\<open>unquote\<close> takes the text between the quotes of a JSON string literal.\<close>

fun unquote :: "string \<Rightarrow> string option" where
  "unquote [] = Some []"
| "unquote (c # s) =
     (case unquote_step (c # s) of
        None \<Rightarrow> None
      | Some (out, n) \<Rightarrow> map_option ((@) out) (unquote (drop (n - 1) s)))"

subsection \<open>The scanner\<close>

text \<open>
  The scanner reads one character at a time. Its state is the step function due next
  (\<open>mode\<close>, named after Go's \<^verbatim>\<open>stateBeginValue\<close>, \<^verbatim>\<open>stateInString\<close>, \<^verbatim>\<open>state0\<close>, ...), the
  stack of open arrays and objects (Go's \<^verbatim>\<open>parseState\<close>, here with the members read so
  far) and the finished top-level value. An error state is absorbing. At most
  \<open>maxNestingDepth\<close> arrays and objects may be open.
\<close>

datatype frame =
    ObjectKey "(string \<times> json) list"
      \<comment> \<open>in an object with these members, a key is due or being read\<close>
  | ObjectColon "(string \<times> json) list" string
      \<comment> \<open>the key is read, the colon is due\<close>
  | ObjectValue "(string \<times> json) list" string
      \<comment> \<open>the value of the key is due or being read\<close>
  | ObjectNext "(string \<times> json) list"
      \<comment> \<open>a member is complete, a comma or the closing brace is due\<close>
  | ArrayValue "json list"
      \<comment> \<open>in an array with these elements\<close>

datatype mode =
    BeginValueOrEmpty | BeginValue | BeginStringOrEmpty | BeginString | EndValue | EndTop
  | InString string | InStringEsc string | InStringEscU nat string
  | Neg string | Num1 string | Num0 string | Dot string | Dot0 string
  | Exp string | ESign string | Exp0 string
  | Literal string json
  | ScanError

type_synonym scanner = "mode \<times> frame list \<times> json option"

definition maxNestingDepth :: int where
  "maxNestingDepth = 10000"

definition scan_error :: scanner where
  "scan_error = (ScanError, [], None)"

text \<open>A value is complete: it becomes the top-level value, the key or the value of a
  member of the object on top of the stack, or an element of the array there.\<close>

definition endValue :: "json \<Rightarrow> frame list \<Rightarrow> json option \<Rightarrow> scanner" where
  "endValue v st r =
     (case st of
        [] \<Rightarrow> (EndValue, [], Some v)
      | ObjectKey ms # st' \<Rightarrow>
          (case v of JString k \<Rightarrow> (EndValue, ObjectColon ms k # st', r) | _ \<Rightarrow> scan_error)
      | ObjectValue ms k # st' \<Rightarrow> (EndValue, ObjectNext (ms @ [(k, v)]) # st', r)
      | ArrayValue xs # st' \<Rightarrow> (EndValue, ArrayValue (xs @ [v]) # st', r)
      | _ \<Rightarrow> scan_error)"

definition stateEndValue :: "frame list \<Rightarrow> json option \<Rightarrow> char \<Rightarrow> scanner" where
  "stateEndValue st r c =
     (case st of
        [] \<Rightarrow> if isSpace c then (EndTop, [], r) else scan_error
      | f # st' \<Rightarrow>
          if isSpace c then (EndValue, st, r)
          else (case f of
             ObjectColon ms k \<Rightarrow>
               if c = CHR '':'' then (BeginValue, ObjectValue ms k # st', r) else scan_error
           | ObjectNext ms \<Rightarrow>
               if c = CHR '','' then (BeginString, ObjectKey ms # st', r)
               else if c = CHR ''}'' then endValue (JObject ms) st' r
               else scan_error
           | ArrayValue xs \<Rightarrow>
               if c = CHR '','' then (BeginValue, st, r)
               else if c = CHR '']'' then endValue (JArray xs) st' r
               else scan_error
           | _ \<Rightarrow> scan_error))"

definition pushParseState :: "frame \<Rightarrow> mode \<Rightarrow> frame list \<Rightarrow> json option \<Rightarrow> scanner" where
  "pushParseState f m st r =
     (if int (length st) < maxNestingDepth then (m, f # st, r) else scan_error)"

definition stateBeginValue :: "frame list \<Rightarrow> json option \<Rightarrow> char \<Rightarrow> scanner" where
  "stateBeginValue st r c =
     (if isSpace c then (BeginValue, st, r)
      else if c = CHR ''{'' then pushParseState (ObjectKey []) BeginStringOrEmpty st r
      else if c = CHR ''['' then pushParseState (ArrayValue []) BeginValueOrEmpty st r
      else if c = CHR 0x22 then (InString [], st, r)
      else if c = CHR ''-'' then (Neg [c], st, r)
      else if c = CHR ''0'' then (Num0 [c], st, r)
      else if c = CHR ''t'' then (Literal ''rue'' (JBool True), st, r)
      else if c = CHR ''f'' then (Literal ''alse'' (JBool False), st, r)
      else if c = CHR ''n'' then (Literal ''ull'' JNull, st, r)
      else if isDigit c then (Num1 [c], st, r)
      else scan_error)"

definition stateBeginString :: "frame list \<Rightarrow> json option \<Rightarrow> char \<Rightarrow> scanner" where
  "stateBeginString st r c =
     (if isSpace c then (BeginString, st, r)
      else if c = CHR 0x22 then (InString [], st, r)
      else scan_error)"

text \<open>A number ends at the first character that cannot continue it; that character is
  then read in the state after a value.\<close>

definition endNumber :: "string \<Rightarrow> frame list \<Rightarrow> json option \<Rightarrow> char \<Rightarrow> scanner" where
  "endNumber lit st r c =
     (case endValue (JNumber lit) st r of
        (EndValue, st', r') \<Rightarrow> stateEndValue st' r' c
      | _ \<Rightarrow> scan_error)"

definition state0 :: "string \<Rightarrow> frame list \<Rightarrow> json option \<Rightarrow> char \<Rightarrow> scanner" where
  "state0 lit st r c =
     (if c = CHR ''.'' then (Dot (lit @ [c]), st, r)
      else if c = CHR ''e'' \<or> c = CHR ''E'' then (Exp (lit @ [c]), st, r)
      else endNumber lit st r c)"

definition stateESign :: "string \<Rightarrow> frame list \<Rightarrow> json option \<Rightarrow> char \<Rightarrow> scanner" where
  "stateESign lit st r c = (if isDigit c then (Exp0 (lit @ [c]), st, r) else scan_error)"

definition scan_step :: "scanner \<Rightarrow> char \<Rightarrow> scanner" where
  "scan_step s c =
     (case s of (m, st, r) \<Rightarrow>
        (case m of
           BeginValueOrEmpty \<Rightarrow>
             if isSpace c then (BeginValueOrEmpty, st, r)
             else if c = CHR '']'' then stateEndValue st r c
             else stateBeginValue st r c
         | BeginValue \<Rightarrow> stateBeginValue st r c
         | BeginStringOrEmpty \<Rightarrow>
             if isSpace c then (BeginStringOrEmpty, st, r)
             else if c = CHR ''}'' then
               (case st of ObjectKey ms # st' \<Rightarrow> endValue (JObject ms) st' r | _ \<Rightarrow> scan_error)
             else stateBeginString st r c
         | BeginString \<Rightarrow> stateBeginString st r c
         | EndValue \<Rightarrow> stateEndValue st r c
         | EndTop \<Rightarrow> if isSpace c then (EndTop, st, r) else scan_error
         | InString raw \<Rightarrow>
             if c = CHR 0x22 then
               (case unquote raw of Some t \<Rightarrow> endValue (JString t) st r | None \<Rightarrow> scan_error)
             else if c = CHR 0x5C then (InStringEsc (raw @ [c]), st, r)
             else if byte c < 0x20 then scan_error
             else (InString (raw @ [c]), st, r)
         | InStringEsc raw \<Rightarrow>
             if c = CHR ''b'' \<or> c = CHR ''f'' \<or> c = CHR ''n'' \<or> c = CHR ''r'' \<or> c = CHR ''t''
                \<or> c = CHR 0x5C \<or> c = CHR ''/'' \<or> c = CHR 0x22 then (InString (raw @ [c]), st, r)
             else if c = CHR ''u'' then (InStringEscU 0 (raw @ [c]), st, r)
             else scan_error
         | InStringEscU n raw \<Rightarrow>
             if isHex c then
               (if n < 3 then (InStringEscU (Suc n) (raw @ [c]), st, r)
                else (InString (raw @ [c]), st, r))
             else scan_error
         | Neg lit \<Rightarrow>
             if c = CHR ''0'' then (Num0 (lit @ [c]), st, r)
             else if isDigit c then (Num1 (lit @ [c]), st, r)
             else scan_error
         | Num1 lit \<Rightarrow> if isDigit c then (Num1 (lit @ [c]), st, r) else state0 lit st r c
         | Num0 lit \<Rightarrow> state0 lit st r c
         | Dot lit \<Rightarrow> if isDigit c then (Dot0 (lit @ [c]), st, r) else scan_error
         | Dot0 lit \<Rightarrow>
             if isDigit c then (Dot0 (lit @ [c]), st, r)
             else if c = CHR ''e'' \<or> c = CHR ''E'' then (Exp (lit @ [c]), st, r)
             else endNumber lit st r c
         | Exp lit \<Rightarrow>
             if c = CHR ''+'' \<or> c = CHR ''-'' then (ESign (lit @ [c]), st, r)
             else stateESign lit st r c
         | ESign lit \<Rightarrow> stateESign lit st r c
         | Exp0 lit \<Rightarrow> if isDigit c then (Exp0 (lit @ [c]), st, r) else endNumber lit st r c
         | Literal rest v \<Rightarrow>
             (case rest of
                [] \<Rightarrow> scan_error
              | x # rest' \<Rightarrow>
                  if c \<noteq> x then scan_error
                  else if rest' = [] then endValue v st r
                  else (Literal rest' v, st, r))
         | ScanError \<Rightarrow> scan_error))"

text \<open>\<open>json_parse\<close> is \<^verbatim>\<open>checkValid\<close> together with the value read: every character is fed to
  the scanner, then the end of input is signalled the way Go's \<^verbatim>\<open>eof\<close> does it, by a
  space.\<close>

definition json_parse :: "string \<Rightarrow> json option" where
  "json_parse data =
     (case foldl scan_step (BeginValue, [], None) (data @ '' '') of
        (EndTop, [], Some v) \<Rightarrow> Some v
      | _ \<Rightarrow> None)"

subsection \<open>Storing a JSON value into a Go variable\<close>

datatype json_error = SyntaxError | UnmarshalTypeError string

text \<open>\<open>UnmarshalTypeError\<close> carries Go's description of the JSON value that did not fit
  (its field \<^verbatim>\<open>Value\<close>).\<close>

definition json_kind :: "json \<Rightarrow> string" where
  "json_kind j = (case j of
      JNull \<Rightarrow> ''null'' | JBool _ \<Rightarrow> ''bool'' | JNumber _ \<Rightarrow> ''number''
    | JString _ \<Rightarrow> ''string'' | JArray _ \<Rightarrow> ''array'' | JObject _ \<Rightarrow> ''object'')"

text \<open>The decoder keeps the first error and goes on (\<^verbatim>\<open>saveError\<close>).\<close>

definition saveError :: "json_error option \<Rightarrow> json_error option \<Rightarrow> json_error option" where
  "saveError saved e = (case saved of None \<Rightarrow> e | Some _ \<Rightarrow> saved)"

text \<open>Each \<open>dec_...\<close> takes the JSON value and the current content of the variable and
  returns the new content and the error, if any. JSON \<^verbatim>\<open>null\<close> leaves a string, an integer
  or a struct as it is.\<close>

definition dec_string :: "json \<Rightarrow> string \<Rightarrow> string \<times> json_error option" where
  "dec_string j old = (case j of
      JString s \<Rightarrow> (s, None)
    | JNull \<Rightarrow> (old, None)
    | _ \<Rightarrow> (old, Some (UnmarshalTypeError (json_kind j))))"

text \<open>\<^verbatim>\<open>strconv.ParseInt(s, 10, 64)\<close> on the text of a JSON number: an optional minus sign
  and digits only, and a value that fits 64 bits.\<close>

definition ParseInt :: "string \<Rightarrow> int option" where
  "ParseInt s =
     (let neg = (s \<noteq> [] \<and> hd s = CHR ''-'');
          ds = (if neg then tl s else s);
          n = foldl (\<lambda>a d. a * 10 + (byte d - 0x30)) 0 ds;
          v = (if neg then - n else n)
      in if ds \<noteq> [] \<and> list_all isDigit ds \<and> - (2 ^ 63) \<le> v \<and> v < 2 ^ 63 then Some v else None)"

definition dec_int :: "json \<Rightarrow> int \<Rightarrow> int \<times> json_error option" where
  "dec_int j old = (case j of
      JNumber s \<Rightarrow>
        (case ParseInt s of
           Some n \<Rightarrow> (n, None)
         | None \<Rightarrow> (old, Some (UnmarshalTypeError (''number '' @ s))))
    | JNull \<Rightarrow> (old, None)
    | _ \<Rightarrow> (old, Some (UnmarshalTypeError (json_kind j))))"

text \<open>
  An object key selects the struct field whose name it equals after case folding
  (\<^verbatim>\<open>foldName\<close>; an exact match is preferred, which makes no difference when no two
  fields fold to the same name). Folding maps a letter to the least member of its case
  orbit: an ASCII letter to its capital, and the two non-ASCII characters that fold to
  an ASCII letter, U+017F (long s) and U+212A (Kelvin sign), to \<open>S\<close> and \<open>K\<close>. The model
  leaves every other non-ASCII character as it is; such a key matches no field here,
  the field names being ASCII.
\<close>

fun foldName :: "string \<Rightarrow> string" where
  "foldName [] = []"
| "foldName (c # s) =
     (if between 0x61 c 0x7A then char_of (byte c - 0x20) # foldName s
      else if c = CHR 0xC5 \<and> take 1 s = [CHR 0xBF] then CHR ''S'' # foldName (drop 1 s)
      else if c = CHR 0xE2 \<and> take 2 s = [CHR 0x84, CHR 0xAA] then CHR ''K'' # foldName (drop 2 s)
      else c # foldName s)"

definition field_match :: "string \<Rightarrow> string \<Rightarrow> bool" where
  "field_match name key = (foldName key = foldName name)"

text \<open>A struct: \<open>field k x v\<close> stores the member with key \<open>k\<close> and value \<open>x\<close> into the struct
  \<open>v\<close>. The members are stored in input order, so a repeated key is stored twice, onto
  what the first occurrence left.\<close>

definition dec_struct ::
  "(string \<Rightarrow> json \<Rightarrow> 'a \<Rightarrow> 'a \<times> json_error option) \<Rightarrow> json \<Rightarrow> 'a \<Rightarrow> 'a \<times> json_error option" where
  "dec_struct field j old = (case j of
      JObject ms \<Rightarrow>
        foldl (\<lambda>acc m. case field (fst m) (snd m) (fst acc) of
                 (v, e) \<Rightarrow> (v, saveError (snd acc) e)) (old, None) ms
    | JNull \<Rightarrow> (old, None)
    | _ \<Rightarrow> (old, Some (UnmarshalTypeError (json_kind j))))"

text \<open>A slice: element \<open>i\<close> of the array is stored onto element \<open>i\<close> of the old slice where
  there is one, and onto a zero value otherwise; \<^verbatim>\<open>null\<close> makes the slice nil. (Elements
  that an earlier, longer content left beyond the length of the old slice are not
  modelled; a slice that starts nil has none.)\<close>

fun dec_elems ::
  "(json \<Rightarrow> 'a \<Rightarrow> 'a \<times> json_error option) \<Rightarrow> 'a \<Rightarrow> json list \<Rightarrow> 'a list \<Rightarrow> 'a list \<times> json_error option" where
  "dec_elems dec z [] old = ([], None)"
| "dec_elems dec z (x # xs) old =
     (case dec x (case old of [] \<Rightarrow> z | y # _ \<Rightarrow> y) of
        (v, e) \<Rightarrow> (case dec_elems dec z xs (tl old) of
                     (vs, e') \<Rightarrow> (v # vs, saveError e e')))"

definition dec_slice ::
  "(json \<Rightarrow> 'a \<Rightarrow> 'a \<times> json_error option) \<Rightarrow> 'a \<Rightarrow> json \<Rightarrow> 'a list \<Rightarrow> 'a list \<times> json_error option" where
  "dec_slice dec z j old = (case j of
      JArray xs \<Rightarrow> dec_elems dec z xs old
    | JNull \<Rightarrow> ([], None)
    | _ \<Rightarrow> (old, Some (UnmarshalTypeError (json_kind j))))"

text \<open>\<^verbatim>\<open>json.Unmarshal\<close>: a syntax error, or else the value stored and the first error saved
  while storing it. (Go returns the error and leaves what was stored in the variable;
  the callers here drop the variable when there is an error.)\<close>

definition Unmarshal ::
  "(json \<Rightarrow> 'a \<Rightarrow> 'a \<times> json_error option) \<Rightarrow> string \<Rightarrow> 'a \<Rightarrow> json_error + 'a" where
  "Unmarshal dec data v =
     (case json_parse data of
        None \<Rightarrow> Inl SyntaxError
      | Some j \<Rightarrow> (case dec j v of (v', None) \<Rightarrow> Inr v' | (_, Some e) \<Rightarrow> Inl e))"

subsection \<open>The Go types decoded by api/client.go\<close>

text \<open>\<^verbatim>\<open>Document\<close>, with its field tags \<^verbatim>\<open>id\<close>, \<^verbatim>\<open>title\<close>, \<^verbatim>\<open>text\<close>, \<^verbatim>\<open>version\<close>. Go's \<^verbatim>\<open>int\<close> is
  taken to be 64 bits wide.\<close>

definition Document_field :: "string \<Rightarrow> json \<Rightarrow> Document \<Rightarrow> Document \<times> json_error option" where
  "Document_field k x d =
     (if field_match ''id'' k then apfst (\<lambda>s. d\<lparr>ID := s\<rparr>) (dec_string x (ID d))
      else if field_match ''title'' k then apfst (\<lambda>s. d\<lparr>Title := s\<rparr>) (dec_string x (Title d))
      else if field_match ''text'' k then apfst (\<lambda>s. d\<lparr>Text := s\<rparr>) (dec_string x (Text d))
      else if field_match ''version'' k then apfst (\<lambda>n. d\<lparr>Version := n\<rparr>) (dec_int x (Version d))
      else (d, None))"

definition dec_Document :: "json \<Rightarrow> Document \<Rightarrow> Document \<times> json_error option" where
  "dec_Document = dec_struct Document_field"

text \<open>The anonymous struct \<^verbatim>\<open>apiError\<close> of \<^verbatim>\<open>GetDocument\<close>, with the tags \<^verbatim>\<open>error\<close> and
  \<^verbatim>\<open>message\<close>.\<close>

record apiError =
  Error :: string
  Message :: string

definition apiError_field :: "string \<Rightarrow> json \<Rightarrow> apiError \<Rightarrow> apiError \<times> json_error option" where
  "apiError_field k x a =
     (if field_match ''error'' k then apfst (\<lambda>s. a\<lparr>Error := s\<rparr>) (dec_string x (Error a))
      else if field_match ''message'' k then apfst (\<lambda>s. a\<lparr>Message := s\<rparr>) (dec_string x (Message a))
      else (a, None))"

definition dec_apiError :: "json \<Rightarrow> apiError \<Rightarrow> apiError \<times> json_error option" where
  "dec_apiError = dec_struct apiError_field"

text \<open>The anonymous structs \<^verbatim>\<open>response\<close> have the single field \<^verbatim>\<open>Data\<close>, tagged \<^verbatim>\<open>data\<close>; such
  a struct is represented by the content of that field.\<close>

definition Data_field ::
  "(json \<Rightarrow> 'a \<Rightarrow> 'a \<times> json_error option) \<Rightarrow> string \<Rightarrow> json \<Rightarrow> 'a \<Rightarrow> 'a \<times> json_error option" where
  "Data_field dec k x d = (if field_match ''data'' k then dec x d else (d, None))"

definition dec_response ::
  "(json \<Rightarrow> 'a \<Rightarrow> 'a \<times> json_error option) \<Rightarrow> json \<Rightarrow> 'a \<Rightarrow> 'a \<times> json_error option" where
  "dec_response dec = dec_struct (Data_field dec)"

section \<open>The transport client (api/client.go)\<close>

subsection \<open>Formatting\<close>

definition nl :: string where
  "nl = [CHR 0x0A]"

text \<open>The verb \<^verbatim>\<open>%d\<close>: an integer in decimal (\<open>digits\<close> is for numbers from 0 on).\<close>

function digits :: "int \<Rightarrow> string" where
  "digits n = (if n < 10 then [char_of (0x30 + n)]
               else digits (n div 10) @ [char_of (0x30 + n mod 10)])"
  by pat_completeness auto
termination
  by (relation "measure nat") auto

declare digits.simps [simp del]

definition itoa :: "int \<Rightarrow> string" where
  "itoa i = (if i < 0 then CHR ''-'' # digits (- i) else digits i)"

text \<open>The verb \<^verbatim>\<open>%s\<close> on a slice of strings: the elements, separated by spaces, in square
  brackets.\<close>

fun join :: "string list \<Rightarrow> string \<Rightarrow> string" where
  "join [] sep = []"
| "join [x] sep = x"
| "join (x # y # ys) sep = x @ sep @ join (y # ys) sep"

definition fmt_strings :: "string list \<Rightarrow> string" where
  "fmt_strings vs = ''['' @ join vs '' '' @ '']''"

subsection \<open>Requests, responses and the world outside\<close>

text \<open>
  A header is a list of keys with their values. \<^verbatim>\<open>Header.Set\<close> replaces the values of a
  key by one value; the keys set by the source are in canonical form already. The
  body of a request is absent where the source passes \<^verbatim>\<open>nil\<close>.
\<close>

record request =
  Method :: string
  URL :: string
  Header :: "(string \<times> string list) list"
  Body :: "string option"

definition Header_Set :: "(string \<times> string list) list \<Rightarrow> string \<Rightarrow> string \<Rightarrow> (string \<times> string list) list" where
  "Header_Set h k v = AList.update k [v] h"

text \<open>A response as the client reads it: the status line, the status code and what
  \<^verbatim>\<open>io.ReadAll(resp.Body)\<close> yields, the bytes of the body or an error.\<close>

record response =
  Status :: string
  StatusCode :: int
  ReadAll_Body :: "error + string"

definition StatusOK :: int where
  "StatusOK = 200"

text \<open>
  What the client takes from outside the repository:
  \<^item> \<open>url_error\<close>: the error of \<^verbatim>\<open>http.NewRequest\<close> for a URL it cannot parse, if any
    (the method \<^verbatim>\<open>POST\<close> is always accepted);
  \<^item> \<open>Do\<close>: \<^verbatim>\<open>httpClient.Do\<close>, the exchange with the remote service, whose state has the
    type \<open>'n\<close>: a transport error or a response, and the new state of the service;
  \<^item> \<open>json_quote\<close>: how \<^verbatim>\<open>json.Marshal\<close> writes a Go string as a JSON string literal;
  \<^item> \<open>json_error_text\<close>: the text of an error of \<^verbatim>\<open>json.Unmarshal\<close>.
\<close>

record 'n runtime =
  url_error :: "string \<Rightarrow> error option"
  Do :: "request \<Rightarrow> 'n \<Rightarrow> (error + response) \<times> 'n"
  json_quote :: "string \<Rightarrow> string"
  json_error_text :: "json_error \<Rightarrow> string"

definition NewRequest :: "'n runtime \<Rightarrow> string \<Rightarrow> string \<Rightarrow> string option \<Rightarrow> error + request" where
  "NewRequest rt method url body =
     (case url_error rt url of
        Some e \<Rightarrow> Inl e
      | None \<Rightarrow> Inr \<lparr>Method = method, URL = url, Header = [], Body = body\<rparr>)"

text \<open>The loop \<^verbatim>\<open>for k, v := range req.Header\<close> of the verbose output. (Go visits the keys
  of a map in no fixed order; the model prints them in the order they were set.)\<close>

definition print_headers :: "(string \<times> string list) list \<Rightarrow> string" where
  "print_headers h = concat (map (\<lambda>kv. ''  '' @ fst kv @ '': '' @ fmt_strings (snd kv) @ nl) h)"

subsection \<open>The three operations\<close>

text \<open>
  Each operation takes the runtime, the configuration held by the client, its
  arguments and the state of the remote service, and returns its Go results, the new
  state of the service and the text it printed on standard output. A pair
  \<^verbatim>\<open>(*Document, error)\<close> is a pair of options, \<open>None\<close> for \<^verbatim>\<open>nil\<close>.

  \<^verbatim>\<open>json.Marshal\<close> of a struct of strings cannot fail, so the branch
  \<^verbatim>\<open>marshaling payload\<close> is never taken; the payload is the object of the tagged fields
  in declaration order.
\<close>

definition GetDocument_payload :: "'n runtime \<Rightarrow> string \<Rightarrow> string" where
  "GetDocument_payload rt docID = ''{'' @ [CHR 0x22] @ ''id'' @ [CHR 0x22] @ '':'' @ json_quote rt docID @ ''}''"

definition UpdateDocument_payload :: "'n runtime \<Rightarrow> string \<Rightarrow> string \<Rightarrow> string" where
  "UpdateDocument_payload rt docID content =
     ''{'' @ [CHR 0x22] @ ''id'' @ [CHR 0x22] @ '':'' @ json_quote rt docID
       @ '','' @ [CHR 0x22] @ ''text'' @ [CHR 0x22] @ '':'' @ json_quote rt content @ ''}''"

text \<open>The request of each operation: \<^verbatim>\<open>http.NewRequest\<close> followed by the calls of
  \<^verbatim>\<open>req.Header.Set\<close>, in the order of the source.\<close>

definition GetDocument_request :: "'n runtime \<Rightarrow> Config \<Rightarrow> string \<Rightarrow> error + request" where
  "GetDocument_request rt cfg docID =
     (case NewRequest rt ''POST'' (GetDocument_url cfg) (Some (GetDocument_payload rt docID)) of
        Inl e \<Rightarrow> Inl e
      | Inr req \<Rightarrow>
         (let h1 = Header_Set (Header req) ''Authorization'' (''Bearer '' @ APIKey cfg);
              h2 = Header_Set h1 ''Accept'' ''application/json'';
              h3 = Header_Set h2 ''Content-Type'' ''application/json''
          in Inr (req\<lparr>Header := h3\<rparr>)))"

definition UpdateDocument_request :: "'n runtime \<Rightarrow> Config \<Rightarrow> string \<Rightarrow> string \<Rightarrow> error + request" where
  "UpdateDocument_request rt cfg docID content =
     (case NewRequest rt ''POST'' (UpdateDocument_url cfg) (Some (UpdateDocument_payload rt docID content)) of
        Inl e \<Rightarrow> Inl e
      | Inr req \<Rightarrow>
         (let h1 = Header_Set (Header req) ''Authorization'' (''Bearer '' @ APIKey cfg);
              h2 = Header_Set h1 ''Content-Type'' ''application/json'';
              h3 = Header_Set h2 ''Accept'' ''application/json''
          in Inr (req\<lparr>Header := h3\<rparr>)))"

definition ListDocuments_request :: "'n runtime \<Rightarrow> Config \<Rightarrow> error + request" where
  "ListDocuments_request rt cfg =
     (case NewRequest rt ''POST'' (ListDocuments_url cfg) None of
        Inl e \<Rightarrow> Inl e
      | Inr req \<Rightarrow>
         (let h1 = Header_Set (Header req) ''Authorization'' (''Bearer '' @ APIKey cfg);
              h2 = Header_Set h1 ''Accept'' ''application/json''
          in Inr (req\<lparr>Header := h2\<rparr>)))"

definition client_GetDocument ::
  "'n runtime \<Rightarrow> Config \<Rightarrow> string \<Rightarrow> bool \<Rightarrow> 'n \<Rightarrow> (Document option \<times> error option) \<times> 'n \<times> string" where
  "client_GetDocument rt cfg docID verbose n =
     (let url = GetDocument_url cfg;
          out1 = (if verbose then ''Making request to: '' @ url @ nl else []);
          body = GetDocument_payload rt docID
      in case GetDocument_request rt cfg docID of
           Inl e \<Rightarrow> ((None, Some (''creating request: '' @ e)), n, out1)
         | Inr req \<Rightarrow>
            (let out2 = out1 @ (if verbose
                          then ''Request headers:'' @ nl @ print_headers (Header req)
                               @ ''Request body: '' @ body @ nl
                          else [])
             in case Do rt req n of
                  (Inl e, n') \<Rightarrow> ((None, Some (''executing request: '' @ e)), n', out2)
                | (Inr resp, n') \<Rightarrow>
                   (case ReadAll_Body resp of
                      Inl e \<Rightarrow> ((None, Some (''reading response body: '' @ e)), n', out2)
                    | Inr respBody \<Rightarrow>
                       (let out3 = out2 @ (if verbose
                                    then ''Response status: '' @ Status resp @ nl
                                         @ ''Response body: '' @ respBody @ nl
                                    else [])
                        in if StatusCode resp \<noteq> StatusOK then
                             (case Unmarshal dec_apiError respBody \<lparr>Error = [], Message = []\<rparr> of
                                Inr apiError \<Rightarrow>
                                  ((None, Some (''API error: '' @ Error apiError @ '' - '' @ Message apiError)),
                                   n', out3)
                              | Inl _ \<Rightarrow>
                                  ((None, Some (''unexpected status code: '' @ itoa (StatusCode resp)
                                                @ '', body: '' @ respBody)), n', out3))
                           else
                             (case Unmarshal (dec_response dec_Document) respBody zero_Document of
                                Inl err \<Rightarrow>
                                  ((None, Some (''decoding response (status '' @ itoa (StatusCode resp)
                                                @ ''): '' @ json_error_text rt err @ nl
                                                @ ''Body: '' @ respBody)), n', out3)
                              | Inr data \<Rightarrow> ((Some data, None), n', out3))))))"

definition client_UpdateDocument ::
  "'n runtime \<Rightarrow> Config \<Rightarrow> string \<Rightarrow> string \<Rightarrow> bool \<Rightarrow> 'n \<Rightarrow> error option \<times> 'n \<times> string" where
  "client_UpdateDocument rt cfg docID content verbose n =
     (let url = UpdateDocument_url cfg;
          body = UpdateDocument_payload rt docID content
      in case UpdateDocument_request rt cfg docID content of
           Inl e \<Rightarrow> (Some (''creating request: '' @ e), n, [])
         | Inr req \<Rightarrow>
            (let out1 = (if verbose
                         then ''Making request to: '' @ url @ nl
                              @ ''Request payload: '' @ body @ nl
                              @ ''Request headers:'' @ nl @ print_headers (Header req)
                         else [])
             in case Do rt req n of
                  (Inl e, n') \<Rightarrow> (Some (''executing request: '' @ e), n', out1)
                | (Inr resp, n') \<Rightarrow>
                   (case ReadAll_Body resp of
                      Inl e \<Rightarrow> (Some (''reading response body: '' @ e), n', out1)
                    | Inr respBody \<Rightarrow>
                       (let out2 = out1 @ (if verbose
                                    then ''Response status: '' @ Status resp @ nl
                                         @ ''Response body: '' @ respBody @ nl
                                    else [])
                        in if StatusCode resp \<noteq> StatusOK then
                             (Some (''unexpected status code: '' @ itoa (StatusCode resp)
                                    @ '', body: '' @ respBody), n', out2)
                           else (None, n', out2)))))"

definition client_ListDocuments ::
  "'n runtime \<Rightarrow> Config \<Rightarrow> bool \<Rightarrow> 'n \<Rightarrow> (Document list \<times> error option) \<times> 'n \<times> string" where
  "client_ListDocuments rt cfg verbose n =
     (let url = ListDocuments_url cfg;
          out1 = (if verbose then ''Making request to: '' @ url @ nl else [])
      in case ListDocuments_request rt cfg of
           Inl e \<Rightarrow> (([], Some (''creating request: '' @ e)), n, out1)
         | Inr req \<Rightarrow>
            (let out2 = out1 @ (if verbose
                          then ''Request headers:'' @ nl @ print_headers (Header req)
                          else [])
             in case Do rt req n of
                  (Inl e, n') \<Rightarrow> (([], Some (''executing request: '' @ e)), n', out2)
                | (Inr resp, n') \<Rightarrow>
                   (case ReadAll_Body resp of
                      Inl e \<Rightarrow> (([], Some (''reading response body: '' @ e)), n', out2)
                    | Inr body \<Rightarrow>
                       (let out3 = out2 @ (if verbose
                                    then ''Response status: '' @ Status resp @ nl
                                         @ ''Response body: '' @ body @ nl
                                    else [])
                        in if StatusCode resp \<noteq> StatusOK then
                             (([], Some (''unexpected status code: '' @ itoa (StatusCode resp)
                                         @ '', body: '' @ body)), n', out3)
                           else
                             (case Unmarshal (dec_response (dec_slice dec_Document zero_Document)) body [] of
                                Inl err \<Rightarrow>
                                  (([], Some (''decoding response (status '' @ itoa (StatusCode resp)
                                              @ ''): '' @ json_error_text rt err @ nl
                                              @ ''Body: '' @ body)), n', out3)
                              | Inr data \<Rightarrow> ((data, None), n', out3))))))"

subsection \<open>The \<^verbatim>\<open>Client\<close> interface and the default factory\<close>

text \<open>
  A value of the interface \<^verbatim>\<open>Client\<close> is a record of its three methods. A method may
  read and change the state that the implementation keeps (the remote service for the
  transport client, the scripted documents for a test double), of type \<open>'s\<close>, and may
  print.
\<close>

record 's Client =
  GetDocument :: "string \<Rightarrow> bool \<Rightarrow> 's \<Rightarrow> (Document option \<times> error option) \<times> 's \<times> string"
  UpdateDocument :: "string \<Rightarrow> string \<Rightarrow> bool \<Rightarrow> 's \<Rightarrow> error option \<times> 's \<times> string"
  ListDocuments :: "bool \<Rightarrow> 's \<Rightarrow> (Document list \<times> error option) \<times> 's \<times> string"

definition DefaultClientFactory :: "'n runtime \<Rightarrow> Config \<Rightarrow> 'n Client" where
  "DefaultClientFactory rt cfg =
     \<lparr>GetDocument = client_GetDocument rt cfg,
      UpdateDocument = client_UpdateDocument rt cfg,
      ListDocuments = client_ListDocuments rt cfg\<rparr>"

text \<open>To speak about the requests that an operation hands to \<^verbatim>\<open>httpClient.Do\<close>, a
  runtime is wrapped so that it also keeps the list of these requests.\<close>

definition recording :: "'n runtime \<Rightarrow> ('n \<times> request list) runtime" where
  "recording rt =
     \<lparr>url_error = url_error rt,
      Do = (\<lambda>req st. case Do rt req (fst st) of (r, n') \<Rightarrow> (r, (n', snd st @ [req]))),
      json_quote = json_quote rt,
      json_error_text = json_error_text rt\<rparr>"

definition sent_GetDocument :: "'n runtime \<Rightarrow> Config \<Rightarrow> string \<Rightarrow> bool \<Rightarrow> 'n \<Rightarrow> request list" where
  "sent_GetDocument rt cfg docID v n =
     snd (fst (snd (client_GetDocument (recording rt) cfg docID v (n, []))))"

definition sent_UpdateDocument ::
  "'n runtime \<Rightarrow> Config \<Rightarrow> string \<Rightarrow> string \<Rightarrow> bool \<Rightarrow> 'n \<Rightarrow> request list" where
  "sent_UpdateDocument rt cfg docID content v n =
     snd (fst (snd (client_UpdateDocument (recording rt) cfg docID content v (n, []))))"

definition sent_ListDocuments :: "'n runtime \<Rightarrow> Config \<Rightarrow> bool \<Rightarrow> 'n \<Rightarrow> request list" where
  "sent_ListDocuments rt cfg v n =
     snd (fst (snd (client_ListDocuments (recording rt) cfg v (n, []))))"

text \<open>The method sets that the source declares, by name: the interface \<^verbatim>\<open>Client\<close>
  (api/client.go), the types \<^verbatim>\<open>*client\<close> (api/client.go), \<^verbatim>\<open>*MockClient\<close> (package api) and
  \<^verbatim>\<open>*mockClient\<close> (cmd/root_test.go), and the methods that cmd/root.go selects on a value
  of type \<^verbatim>\<open>api.Client\<close>. A type implements an interface when it has all its methods; a
  selector on an interface value is legal when the interface has the method.\<close>

definition Client_methods :: "string list" where
  "Client_methods = [''GetDocument'', ''UpdateDocument'', ''ListDocuments'']"

definition client_methods :: "string list" where
  "client_methods = [''GetDocument'', ''UpdateDocument'', ''ListDocuments'']"

definition MockClient_methods :: "string list" where
  "MockClient_methods = [''GetDocument'', ''UpdateDocument'', ''ListDocuments'']"

definition mockClient_methods :: "string list" where
  "mockClient_methods = [''GetDocument'', ''UpdateDocument'', ''ListDocuments'', ''CreateDocument'']"

definition implements :: "string list \<Rightarrow> string list \<Rightarrow> bool" where
  "implements T I = list_all (\<lambda>m. m \<in> set T) I"

definition pullCmd_selector :: string where
  "pullCmd_selector = ''GetDocument''"

definition pushCmd_selector :: string where
  "pushCmd_selector = ''UpdateDocument''"

definition listCmd_selector :: string where
  "listCmd_selector = ''ListDocuments''"

definition createCmd_selector :: string where
  "createCmd_selector = ''CreateDocument''"

definition selector_legal :: "string list \<Rightarrow> string \<Rightarrow> bool" where
  "selector_legal I m = (m \<in> set I)"

section \<open>The commands (cmd/root.go)\<close>

subsection \<open>Files\<close>

text \<open>
  The files of the working directory are a map from names to contents.
  \<^verbatim>\<open>os.ReadFile\<close> fails on a name that is not there. \<^verbatim>\<open>os.WriteFile\<close> opens the file
  (creating or truncating it), writes and closes; its documentation warns that a
  failure in the middle can leave the file partially written. What the operating
  system does with a write is its \<open>write_result\<close>:
  \<^item> \<open>WriteOk\<close>: the file has the data;
  \<^item> \<open>OpenError e\<close>: the file could not be opened, nothing changes;
  \<^item> \<open>WriteError k e\<close>: the file was opened, and the write failed after \<open>k\<close> bytes;
  \<^item> \<open>CloseError e\<close>: the data were written, and closing the file failed.
\<close>

type_synonym files = "string \<rightharpoonup> string"

datatype write_result = WriteOk | OpenError error | WriteError nat error | CloseError error

definition os_WriteFile :: "write_result \<Rightarrow> string \<Rightarrow> string \<Rightarrow> files \<Rightarrow> files \<times> error option" where
  "os_WriteFile res name data fs = (case res of
      WriteOk \<Rightarrow> (fs(name \<mapsto> data), None)
    | OpenError e \<Rightarrow> (fs, Some e)
    | WriteError k e \<Rightarrow> (fs(name \<mapsto> take k data), Some e)
    | CloseError e \<Rightarrow> (fs(name \<mapsto> data), Some e))"

definition os_ReadFile :: "string \<Rightarrow> files \<Rightarrow> error + string" where
  "os_ReadFile name fs = (case fs name of
      None \<Rightarrow> Inl (''open '' @ name @ '': no such file or directory'')
    | Some data \<Rightarrow> Inr data)"

subsection \<open>The state a command runs in\<close>

text \<open>
  The package-level variables \<^verbatim>\<open>config.LoadConfig\<close>, \<^verbatim>\<open>clientFactory\<close> and \<^verbatim>\<open>verbose\<close>, and
  the behaviour of the file system on writes, do not change while a command runs; they
  form its environment. (\<^verbatim>\<open>LoadConfig\<close> is given by its result.) The world that a
  command changes has the files, the standard output, the state of the client and,
  for the statements about which operations a command invokes, the list of the calls
  made on the client.
\<close>

datatype call =
    Call_GetDocument string bool
  | Call_UpdateDocument string string bool
  | Call_ListDocuments bool

record 's env =
  LoadConfig :: "error + Config"
  clientFactory :: "Config \<Rightarrow> 's Client"
  verbose :: bool
  write_outcome :: "string \<Rightarrow> string \<Rightarrow> write_result"

record 's world =
  files :: files
  stdout :: string
  client_state :: 's
  calls :: "call list"

text \<open>A command returns an error or \<^verbatim>\<open>nil\<close>, or panics.\<close>

datatype cmd_result = Returned "error option" | Panicked

text \<open>\<^verbatim>\<open>cobra.ExactArgs(n)\<close> is checked before \<^verbatim>\<open>RunE\<close> runs.\<close>

definition ExactArgs :: "nat \<Rightarrow> string list \<Rightarrow> error option" where
  "ExactArgs n args =
     (if length args \<noteq> n
      then Some (''accepts '' @ itoa (int n) @ '' arg(s), received '' @ itoa (int (length args)))
      else None)"

subsection \<open>pull\<close>

definition pullCmd_RunE :: "'s env \<Rightarrow> string list \<Rightarrow> 's world \<Rightarrow> cmd_result \<times> 's world" where
  "pullCmd_RunE env args w =
     (case LoadConfig env of
        Inl err \<Rightarrow> (Returned (Some (''loading config: '' @ err)), w)
      | Inr cfg \<Rightarrow>
         (case args of
            [] \<Rightarrow> (Panicked, w)
          | docID # _ \<Rightarrow>
             (let client = clientFactory env cfg in
              case GetDocument client docID (verbose env) (client_state w) of
                ((doc, err), s', out) \<Rightarrow>
                 (let w1 = w\<lparr>client_state := s', stdout := stdout w @ out,
                              calls := calls w @ [Call_GetDocument docID (verbose env)]\<rparr>
                  in case err of
                       Some e \<Rightarrow> (Returned (Some (''fetching document: '' @ e)), w1)
                     | None \<Rightarrow>
                        (case doc of
                           None \<Rightarrow> (Panicked, w1)
                         | Some d \<Rightarrow>
                            (let filename = docID @ ''.md'' in
                             case os_WriteFile (write_outcome env filename (Text d)) filename (Text d) (files w1) of
                               (fs', Some e) \<Rightarrow>
                                 (Returned (Some (''writing file: '' @ e)), w1\<lparr>files := fs'\<rparr>)
                             | (fs', None) \<Rightarrow>
                                 (Returned None,
                                  w1\<lparr>files := fs',
                                     stdout := stdout w1 @ ''Successfully pulled document to ''
                                                 @ filename @ nl\<rparr>)))))))"

definition pullCmd :: "'s env \<Rightarrow> string list \<Rightarrow> 's world \<Rightarrow> cmd_result \<times> 's world" where
  "pullCmd env args w =
     (case ExactArgs 1 args of
        Some e \<Rightarrow> (Returned (Some e), w)
      | None \<Rightarrow> pullCmd_RunE env args w)"

subsection \<open>push\<close>

definition pushCmd_RunE :: "'s env \<Rightarrow> string list \<Rightarrow> 's world \<Rightarrow> cmd_result \<times> 's world" where
  "pushCmd_RunE env args w =
     (case LoadConfig env of
        Inl err \<Rightarrow> (Returned (Some (''loading config: '' @ err)), w)
      | Inr cfg \<Rightarrow>
         (case args of
            [] \<Rightarrow> (Panicked, w)
          | docID # _ \<Rightarrow>
             (let client = clientFactory env cfg;
                  filename = docID @ ''.md''
              in case os_ReadFile filename (files w) of
                   Inl err \<Rightarrow> (Returned (Some (''reading file: '' @ err)), w)
                 | Inr content \<Rightarrow>
                    (case UpdateDocument client docID content (verbose env) (client_state w) of
                       (err, s', out) \<Rightarrow>
                        (let w1 = w\<lparr>client_state := s', stdout := stdout w @ out,
                                     calls := calls w @ [Call_UpdateDocument docID content (verbose env)]\<rparr>
                         in case err of
                              Some e \<Rightarrow> (Returned (Some (''updating document: '' @ e)), w1)
                            | None \<Rightarrow>
                               (Returned None,
                                w1\<lparr>stdout := stdout w1 @ ''Successfully pushed changes to document ''
                                                @ docID @ nl\<rparr>))))))"

definition pushCmd :: "'s env \<Rightarrow> string list \<Rightarrow> 's world \<Rightarrow> cmd_result \<times> 's world" where
  "pushCmd env args w =
     (case ExactArgs 1 args of
        Some e \<Rightarrow> (Returned (Some e), w)
      | None \<Rightarrow> pushCmd_RunE env args w)"

subsection \<open>list\<close>

definition listCmd :: "'s env \<Rightarrow> string list \<Rightarrow> 's world \<Rightarrow> cmd_result \<times> 's world" where
  "listCmd env args w =
     (case LoadConfig env of
        Inl err \<Rightarrow> (Returned (Some (''loading config: '' @ err)), w)
      | Inr cfg \<Rightarrow>
         (let client = clientFactory env cfg in
          case ListDocuments client (verbose env) (client_state w) of
            ((docs, err), s', out) \<Rightarrow>
             (let w1 = w\<lparr>client_state := s', stdout := stdout w @ out,
                          calls := calls w @ [Call_ListDocuments (verbose env)]\<rparr>
              in case err of
                   Some e \<Rightarrow> (Returned (Some (''listing documents: '' @ e)), w1)
                 | None \<Rightarrow>
                    (Returned None,
                     w1\<lparr>stdout := stdout w1
                          @ concat (map (\<lambda>doc. ID doc @ '': '' @ Title doc @ nl) docs)\<rparr>))))"

subsection \<open>Test doubles (package api, cmd/root_test.go)\<close>

text \<open>\<^verbatim>\<open>MockClient\<close> holds one function per method and calls it. It keeps no state and
  prints nothing.\<close>

definition MockClient ::
  "(string \<Rightarrow> bool \<Rightarrow> Document option \<times> error option)
   \<Rightarrow> (string \<Rightarrow> string \<Rightarrow> bool \<Rightarrow> error option)
   \<Rightarrow> (bool \<Rightarrow> Document list \<times> error option) \<Rightarrow> unit Client" where
  "MockClient GetDocumentFunc UpdateDocumentFunc ListDocumentsFunc =
     \<lparr>GetDocument = (\<lambda>docID v s. (GetDocumentFunc docID v, s, [])),
      UpdateDocument = (\<lambda>docID content v s. (UpdateDocumentFunc docID content v, s, [])),
      ListDocuments = (\<lambda>v s. (ListDocumentsFunc v, s, []))\<rparr>"

text \<open>\<^verbatim>\<open>mockClient\<close> of cmd/root_test.go keeps a map of documents. (Its \<^verbatim>\<open>ListDocuments\<close>
  ranges over the map, in no fixed order; the model takes the order as a parameter, a
  list of the keys.)\<close>

definition mockClient :: "string list \<Rightarrow> (string \<rightharpoonup> Document) Client" where
  "mockClient keys =
     \<lparr>GetDocument = (\<lambda>docID v documents.
        case documents docID of
          None \<Rightarrow> ((None, Some ''document not found''), documents, [])
        | Some doc \<Rightarrow> ((Some doc, None), documents, [])),
      UpdateDocument = (\<lambda>docID content v documents.
        case documents docID of
          None \<Rightarrow> (Some ''document not found'', documents, [])
        | Some doc \<Rightarrow> (None, documents(docID \<mapsto> doc\<lparr>Text := content\<rparr>), [])),
      ListDocuments = (\<lambda>v documents.
        ((List.map_filter documents keys, None), documents, []))\<rparr>"

subsection \<open>Predicates of the statements and fixtures of the examples\<close>

text \<open>A JSON value without a field for \<^verbatim>\<open>Data\<close>: \<^verbatim>\<open>null\<close>, or an object none of whose keys
  matches \<^verbatim>\<open>data\<close>.\<close>

definition no_data_field :: "json \<Rightarrow> bool" where
  "no_data_field j = (case j of
      JNull \<Rightarrow> True
    | JObject ms \<Rightarrow> list_all (\<lambda>m. \<not> field_match ''data'' (fst m)) ms
    | _ \<Rightarrow> False)"

text \<open>
  When \<^verbatim>\<open>json.Unmarshal\<close> stores a JSON value into the \<^verbatim>\<open>{error, message}\<close> struct without
  error: the value is \<^verbatim>\<open>null\<close>, or an object in which every member whose key matches
  \<^verbatim>\<open>error\<close> or \<^verbatim>\<open>message\<close> is a string or \<^verbatim>\<open>null\<close> (\<open>is_envelope\<close>). The field then holds the
  value of the last string member that matches its name, and is empty when there is
  none (\<open>envelope_value\<close>).
\<close>

definition member_fits :: "string \<times> json \<Rightarrow> bool" where
  "member_fits m =
     (if field_match ''error'' (fst m) \<or> field_match ''message'' (fst m)
      then (case snd m of JString _ \<Rightarrow> True | JNull \<Rightarrow> True | _ \<Rightarrow> False)
      else True)"

definition is_envelope :: "json \<Rightarrow> bool" where
  "is_envelope j = (case j of
      JNull \<Rightarrow> True
    | JObject ms \<Rightarrow> list_all member_fits ms
    | _ \<Rightarrow> False)"

definition member_value :: "string \<Rightarrow> string \<Rightarrow> string \<times> json \<Rightarrow> string" where
  "member_value name old m =
     (if field_match name (fst m) then (case snd m of JString s \<Rightarrow> s | _ \<Rightarrow> old) else old)"

definition envelope_value :: "string \<Rightarrow> json \<Rightarrow> string" where
  "envelope_value name j = (case j of
      JObject ms \<Rightarrow> foldl (member_value name) [] ms
    | _ \<Rightarrow> [])"

text \<open>A body for the examples: an envelope whose message has an escaped double quote
  (twice) and the escape \<^verbatim>\<open>\u0020\<close>, a space.\<close>

definition escaped_envelope :: string where
  \<open>escaped_envelope = ''{"error":"not_found","message":"Document '' @ [CHR 0x5C]
     @ ''"doc123'' @ [CHR 0x5C] @ ''" not'' @ [CHR 0x5C] @ ''u0020found"}''\<close>

text \<open>The configuration of the tests (cmd/root_test.go).\<close>

definition testConfig :: Config where
  "testConfig = \<lparr>APIKey = ''test-key'', OutlineURL = ''https://test.outline.com''\<rparr>"

text \<open>A runtime for the examples: every URL parses, the service answers every request
  with the response \<open>resp\<close>, a string is quoted by putting it between double quotes
  (which is what \<^verbatim>\<open>json.Marshal\<close> does for the strings of the examples, none of which has
  a character to escape), and the errors of \<^verbatim>\<open>json.Unmarshal\<close> have short texts.\<close>

definition quote_plain :: "string \<Rightarrow> string" where
  "quote_plain s = [CHR 0x22] @ s @ [CHR 0x22]"

definition serve :: "response \<Rightarrow> unit runtime" where
  "serve resp =
     \<lparr>url_error = (\<lambda>url. None),
      Do = (\<lambda>req n. (Inr resp, n)),
      json_quote = quote_plain,
      json_error_text = (\<lambda>e. case e of
          SyntaxError \<Rightarrow> ''json: syntax error''
        | UnmarshalTypeError v \<Rightarrow> ''json: cannot unmarshal '' @ v)\<rparr>"

text \<open>The environment of the command tests: the configuration loads, the factory
  returns the given client, \<^verbatim>\<open>verbose\<close> is off and every write succeeds. The tests start
  in an empty directory.\<close>

definition test_env :: "'s Client \<Rightarrow> 's env" where
  "test_env client =
     \<lparr>LoadConfig = Inr testConfig,
      clientFactory = (\<lambda>cfg. client),
      verbose = False,
      write_outcome = (\<lambda>name data. WriteOk)\<rparr>"

definition empty_dir :: "'s \<Rightarrow> 's world" where
  "empty_dir s = \<lparr>files = Map.empty, stdout = [], client_state = s, calls = []\<rparr>"

text \<open>The doubles of \<^verbatim>\<open>TestPullCommand\<close> and \<^verbatim>\<open>TestPushCommand\<close>. (A function that a test
  leaves nil is never called by the command under test; here it does nothing.)\<close>

definition pull_ok_stub :: "unit Client" where
  "pull_ok_stub = MockClient
     (\<lambda>docID v. (Some \<lparr>ID = docID, Title = ''Test Doc'', Text = ''# Test Content'', Version = 0\<rparr>, None))
     (\<lambda>docID content v. None)
     (\<lambda>v. ([], None))"

definition pull_error_stub :: "unit Client" where
  "pull_error_stub = MockClient
     (\<lambda>docID v. (None, Some ''API error''))
     (\<lambda>docID content v. None)
     (\<lambda>v. ([], None))"

definition push_stub :: "unit Client" where
  "push_stub = MockClient
     (\<lambda>docID v. (None, Some ''API error''))
     (\<lambda>docID content v. None)
     (\<lambda>v. ([], None))"

text \<open>The documents of the double of cmd/root_test.go.\<close>

definition test_documents :: "string \<rightharpoonup> Document" where
  "test_documents =
     [''test-id'' \<mapsto> \<lparr>ID = ''test-id'', Title = ''Test Document'', Text = ''Test content'', Version = 0\<rparr>]"

text \<open>An environment in which the disk is full after four bytes of a write.\<close>

definition disk_full_env :: "'s Client \<Rightarrow> 's env" where
  "disk_full_env client =
     (test_env client)\<lparr>write_outcome := (\<lambda>name data.
        WriteError 4 (''write '' @ name @ '': no space left on device''))\<rparr>"

section \<open>Properties\<close>

subsection \<open>Decoding, on examples\<close>

text \<open>The decoder run on small inputs: a full document, keys in other cases, a repeated
  key, a number that is not an integer, a list, and bodies that are not objects.\<close>

lemma decode_document_example:
  \<open>Unmarshal (dec_response dec_Document)
     ''{"data":{"id":"doc123","title":"Test Doc","text":"# Test Content","version":3,"extra":[1,2]}}''
     zero_Document
   = Inr \<lparr>ID = ''doc123'', Title = ''Test Doc'', Text = ''# Test Content'', Version = 3\<rparr>\<close>
  by code_simp

lemma decode_folded_keys_example:
  \<open>Unmarshal (dec_response dec_Document) ''{"DATA":{"Id":"x","VERSION":-7}}'' zero_Document
   = Inr \<lparr>ID = ''x'', Title = [], Text = [], Version = -7\<rparr>\<close>
  by code_simp

lemma decode_repeated_key_example:
  \<open>Unmarshal (dec_response dec_Document) ''{"data":{"id":"a"},"data":{"title":"b"}}'' zero_Document
   = Inr \<lparr>ID = ''a'', Title = ''b'', Text = [], Version = 0\<rparr>\<close>
  by code_simp

lemma decode_type_error_example:
  \<open>Unmarshal (dec_response dec_Document) ''{"data":{"version":1.5}}'' zero_Document
   = Inl (UnmarshalTypeError ''number 1.5'')\<close>
  by code_simp

lemma decode_list_example:
  \<open>Unmarshal (dec_response (dec_slice dec_Document zero_Document))
     ''{"data":[{"id":"a","title":"A"},{"id":"b","title":"B"}]}'' []
   = Inr [\<lparr>ID = ''a'', Title = ''A'', Text = [], Version = 0\<rparr>,
          \<lparr>ID = ''b'', Title = ''B'', Text = [], Version = 0\<rparr>]\<close>
  by code_simp

lemma decode_null_example:
  \<open>Unmarshal (dec_response dec_Document) ''null'' zero_Document = Inr zero_Document\<close>
  by code_simp

lemma decode_string_body_example:
  \<open>Unmarshal dec_apiError '' "oops" '' \<lparr>Error = [], Message = []\<rparr>
   = Inl (UnmarshalTypeError ''string'')\<close>
  by code_simp

lemma foldName_tags:
  "foldName ''error'' = ''ERROR''" "foldName ''message'' = ''MESSAGE''"
  by code_simp+

lemma dec_apiError_envelope:
  "dec_apiError (JObject [(''error'', JString e), (''message'', JString m)]) a
     = (\<lparr>Error = e, Message = m\<rparr>, None)"
  by (simp add: dec_apiError_def dec_struct_def apiError_field_def field_match_def dec_string_def
      saveError_def foldName_tags)

lemma Unmarshal_apiError_object:
  assumes "json_parse body = Some (JObject [(''error'', JString e), (''message'', JString m)])"
  shows "Unmarshal dec_apiError body a = Inr \<lparr>Error = e, Message = m\<rparr>"
  using assms by (simp add: Unmarshal_def dec_apiError_envelope)

subsection \<open>The requests handed to the HTTP client\<close>

lemma recording_simps:
  "url_error (recording rt) = url_error rt"
  "json_quote (recording rt) = json_quote rt"
  "json_error_text (recording rt) = json_error_text rt"
  "Do (recording rt) req st = (case Do rt req (fst st) of (r, n') \<Rightarrow> (r, (n', snd st @ [req])))"
  by (simp_all add: recording_def)

lemma request_recording:
  "GetDocument_request (recording rt) cfg docID = GetDocument_request rt cfg docID"
  "UpdateDocument_request (recording rt) cfg docID content = UpdateDocument_request rt cfg docID content"
  "ListDocuments_request (recording rt) cfg = ListDocuments_request rt cfg"
  by (simp_all add: GetDocument_request_def UpdateDocument_request_def ListDocuments_request_def
      NewRequest_def GetDocument_payload_def UpdateDocument_payload_def recording_simps)

lemma sent_GetDocument_eq:
  "sent_GetDocument rt cfg docID v n =
     (case GetDocument_request rt cfg docID of Inl _ \<Rightarrow> [] | Inr req \<Rightarrow> [req])"
  by (simp add: sent_GetDocument_def client_GetDocument_def recording_simps request_recording Let_def
      split: sum.split prod.split)

lemma sent_UpdateDocument_eq:
  "sent_UpdateDocument rt cfg docID content v n =
     (case UpdateDocument_request rt cfg docID content of Inl _ \<Rightarrow> [] | Inr req \<Rightarrow> [req])"
  by (simp add: sent_UpdateDocument_def client_UpdateDocument_def recording_simps request_recording Let_def
      split: sum.split prod.split)

lemma sent_ListDocuments_eq:
  "sent_ListDocuments rt cfg v n =
     (case ListDocuments_request rt cfg of Inl _ \<Rightarrow> [] | Inr req \<Rightarrow> [req])"
  by (simp add: sent_ListDocuments_def client_ListDocuments_def recording_simps request_recording Let_def
      split: sum.split prod.split)

subsection \<open>Base URL normalisation\<close>

lemma dropWhile_replicate_append:
  "P c \<Longrightarrow> dropWhile P (replicate n c @ ys) = dropWhile P ys"
  by (induction n) simp_all

lemma TrimRight_replicate:
  "TrimRight (b @ replicate n c) [c] = TrimRight b [c]"
  by (simp add: TrimRight_def dropWhile_replicate_append)

lemma TrimRight_decompose:
  "\<exists>k. b = TrimRight b [c] @ replicate k c"
proof -
  have "rev b = takeWhile (\<lambda>x. x = c) (rev b) @ dropWhile (\<lambda>x. x = c) (rev b)"
    by simp
  moreover have "takeWhile (\<lambda>x. x = c) (rev b)
      = replicate (length (takeWhile (\<lambda>x. x = c) (rev b))) c"
    by (rule replicate_length_same [symmetric]) (auto dest: set_takeWhileD)
  ultimately have "rev b = replicate (length (takeWhile (\<lambda>x. x = c) (rev b))) c
      @ dropWhile (\<lambda>x. x = c) (rev b)"
    by simp
  then have "b = rev (dropWhile (\<lambda>x. x = c) (rev b))
      @ replicate (length (takeWhile (\<lambda>x. x = c) (rev b))) c"
    by (metis rev_append rev_replicate rev_rev_ident)
  then show ?thesis
    by (auto simp: TrimRight_def)
qed

lemma TrimRight_no_trailing:
  "TrimRight b [c] \<noteq> p @ [c]"
proof
  assume "TrimRight b [c] = p @ [c]"
  then have "dropWhile (\<lambda>x. x = c) (rev b) = c # rev p"
    by (simp add: TrimRight_def rev_swap)
  then show False
    using hd_dropWhile [of "\<lambda>x. x = c" "rev b"] by auto
qed

text \<open>
  C4 (as stated, refuted): the claim says that exactly one trailing \<open>/\<close> is stripped.
  \<open>normalizeURL\<close> calls \<^verbatim>\<open>strings.TrimRight\<close>, which strips all of them: a base URL
  ending in two slashes loses both, where stripping exactly one would leave
  \<^verbatim>\<open>http://host/\<close>.
\<close>

theorem C4_strips_more_than_one:
  "normalizeURL ''http://host//'' = ''http://host''
   \<and> normalizeURL ''http://host//'' \<noteq> ''http://host/''"
  by (simp add: normalizeURL_def TrimRight_def)

text \<open>
  C4 (amended): base URL normalisation strips every trailing \<open>/\<close> of the configured
  base URL before the endpoint path is appended: the normalised URL is the base URL
  without its trailing run of slashes, it never ends in \<open>/\<close>, and a base URL followed by
  any number of slashes normalises like the base URL itself. Consequently a base URL
  with one trailing slash and the same base URL without it give character-identical
  request URLs for GetDocument, UpdateDocument and ListDocuments, and the requests
  handed to the HTTP client are the same.
\<close>

theorem C4_normalizeURL_strips_all_trailing_slashes:
  "normalizeURL (b @ replicate n (CHR ''/'')) = normalizeURL b
   \<and> (\<exists>k. b = normalizeURL b @ replicate k (CHR ''/''))
   \<and> normalizeURL b \<noteq> p @ ''/''
   \<and> GetDocument_url (cfg\<lparr>OutlineURL := b @ ''/''\<rparr>) = GetDocument_url (cfg\<lparr>OutlineURL := b\<rparr>)
   \<and> UpdateDocument_url (cfg\<lparr>OutlineURL := b @ ''/''\<rparr>) = UpdateDocument_url (cfg\<lparr>OutlineURL := b\<rparr>)
   \<and> ListDocuments_url (cfg\<lparr>OutlineURL := b @ ''/''\<rparr>) = ListDocuments_url (cfg\<lparr>OutlineURL := b\<rparr>)
   \<and> sent_GetDocument rt (cfg\<lparr>OutlineURL := b @ ''/''\<rparr>) docID v n
       = sent_GetDocument rt (cfg\<lparr>OutlineURL := b\<rparr>) docID v n
   \<and> sent_UpdateDocument rt (cfg\<lparr>OutlineURL := b @ ''/''\<rparr>) docID content v n
       = sent_UpdateDocument rt (cfg\<lparr>OutlineURL := b\<rparr>) docID content v n
   \<and> sent_ListDocuments rt (cfg\<lparr>OutlineURL := b @ ''/''\<rparr>) v n
       = sent_ListDocuments rt (cfg\<lparr>OutlineURL := b\<rparr>) v n"
proof -
  have n: "normalizeURL (b @ replicate n (CHR ''/'')) = normalizeURL b"
    unfolding normalizeURL_def by (rule TrimRight_replicate)
  have k: "\<exists>k. b = normalizeURL b @ replicate k (CHR ''/'')"
    unfolding normalizeURL_def by (rule TrimRight_decompose)
  have p: "normalizeURL b \<noteq> p @ ''/''"
    unfolding normalizeURL_def by (rule TrimRight_no_trailing)
  have one: "normalizeURL (b @ ''/'') = normalizeURL b"
    using TrimRight_replicate [of b 1 "CHR ''/''"] by (simp add: normalizeURL_def)
  have g: "GetDocument_url (cfg\<lparr>OutlineURL := b @ ''/''\<rparr>) = GetDocument_url (cfg\<lparr>OutlineURL := b\<rparr>)"
    by (simp add: GetDocument_url_def one)
  have u: "UpdateDocument_url (cfg\<lparr>OutlineURL := b @ ''/''\<rparr>) = UpdateDocument_url (cfg\<lparr>OutlineURL := b\<rparr>)"
    by (simp add: UpdateDocument_url_def one)
  have l: "ListDocuments_url (cfg\<lparr>OutlineURL := b @ ''/''\<rparr>) = ListDocuments_url (cfg\<lparr>OutlineURL := b\<rparr>)"
    by (simp add: ListDocuments_url_def one)
  have sg: "sent_GetDocument rt (cfg\<lparr>OutlineURL := b @ ''/''\<rparr>) docID v n
       = sent_GetDocument rt (cfg\<lparr>OutlineURL := b\<rparr>) docID v n"
    by (simp add: sent_GetDocument_eq GetDocument_request_def g Let_def split: sum.split)
  have su: "sent_UpdateDocument rt (cfg\<lparr>OutlineURL := b @ ''/''\<rparr>) docID content v n
       = sent_UpdateDocument rt (cfg\<lparr>OutlineURL := b\<rparr>) docID content v n"
    by (simp add: sent_UpdateDocument_eq UpdateDocument_request_def u Let_def split: sum.split)
  have sl: "sent_ListDocuments rt (cfg\<lparr>OutlineURL := b @ ''/''\<rparr>) v n
       = sent_ListDocuments rt (cfg\<lparr>OutlineURL := b\<rparr>) v n"
    by (simp add: sent_ListDocuments_eq ListDocuments_request_def l Let_def split: sum.split)
  from n k p g u l sg su sl show ?thesis by blast
qed

subsection \<open>Verbose output\<close>

lemma GetDocument_verbose:
  "fst (client_GetDocument rt cfg docID True n) = fst (client_GetDocument rt cfg docID False n)
   \<and> fst (snd (client_GetDocument rt cfg docID True n)) = fst (snd (client_GetDocument rt cfg docID False n))
   \<and> snd (snd (client_GetDocument rt cfg docID False n)) = []"
  by (simp add: client_GetDocument_def Let_def split: sum.split prod.split)

lemma UpdateDocument_verbose:
  "fst (client_UpdateDocument rt cfg docID content True n) = fst (client_UpdateDocument rt cfg docID content False n)
   \<and> fst (snd (client_UpdateDocument rt cfg docID content True n)) = fst (snd (client_UpdateDocument rt cfg docID content False n))
   \<and> snd (snd (client_UpdateDocument rt cfg docID content False n)) = []"
  by (simp add: client_UpdateDocument_def Let_def split: sum.split prod.split)

lemma ListDocuments_verbose:
  "fst (client_ListDocuments rt cfg True n) = fst (client_ListDocuments rt cfg False n)
   \<and> fst (snd (client_ListDocuments rt cfg True n)) = fst (snd (client_ListDocuments rt cfg False n))
   \<and> snd (snd (client_ListDocuments rt cfg False n)) = []"
  by (simp add: client_ListDocuments_def Let_def split: sum.split prod.split)

text \<open>What \<^verbatim>\<open>verbose = true\<close> prints in a complete exchange: the URL, the request headers
  and body, the status and the body of the response.\<close>

lemma GetDocument_verbose_output:
  assumes "GetDocument_request rt cfg docID = Inr req"
    and "Do rt req n = (Inr resp, n')"
    and "ReadAll_Body resp = Inr respBody"
  shows "snd (snd (client_GetDocument rt cfg docID True n)) =
      ''Making request to: '' @ GetDocument_url cfg @ nl
      @ ''Request headers:'' @ nl @ print_headers (Header req)
      @ ''Request body: '' @ GetDocument_payload rt docID @ nl
      @ ''Response status: '' @ Status resp @ nl
      @ ''Response body: '' @ respBody @ nl"
  using assms by (simp add: client_GetDocument_def Let_def split: sum.split)

lemma UpdateDocument_verbose_output:
  assumes "UpdateDocument_request rt cfg docID content = Inr req"
    and "Do rt req n = (Inr resp, n')"
    and "ReadAll_Body resp = Inr respBody"
  shows "snd (snd (client_UpdateDocument rt cfg docID content True n)) =
      ''Making request to: '' @ UpdateDocument_url cfg @ nl
      @ ''Request payload: '' @ UpdateDocument_payload rt docID content @ nl
      @ ''Request headers:'' @ nl @ print_headers (Header req)
      @ ''Response status: '' @ Status resp @ nl
      @ ''Response body: '' @ respBody @ nl"
  using assms by (simp add: client_UpdateDocument_def Let_def)

lemma ListDocuments_verbose_output:
  assumes "ListDocuments_request rt cfg = Inr req"
    and "Do rt req n = (Inr resp, n')"
    and "ReadAll_Body resp = Inr body"
  shows "snd (snd (client_ListDocuments rt cfg True n)) =
      ''Making request to: '' @ ListDocuments_url cfg @ nl
      @ ''Request headers:'' @ nl @ print_headers (Header req)
      @ ''Response status: '' @ Status resp @ nl
      @ ''Response body: '' @ body @ nl"
  using assms by (simp add: client_ListDocuments_def Let_def split: sum.split)

text \<open>
  C9: the verbose flag is observational only. For each of GetDocument, UpdateDocument
  and ListDocuments, for every runtime (in particular every behaviour of the remote
  service), configuration, input and state of the service, the call with
  \<^verbatim>\<open>verbose = true\<close> and the call with \<^verbatim>\<open>verbose = false\<close> return the same value and the same
  error, leave the service in the same state and hand the same requests to the HTTP
  client; with \<^verbatim>\<open>verbose = false\<close> nothing is printed. So the flag only adds output.
  (Of the triple that an operation returns, \<open>fst\<close> is the Go result, \<open>fst \<circ> snd\<close> the
  state of the service and \<open>snd \<circ> snd\<close> the output.)
\<close>

theorem C9_verbose_is_observational:
  "fst (client_GetDocument rt cfg docID True n) = fst (client_GetDocument rt cfg docID False n)
   \<and> fst (snd (client_GetDocument rt cfg docID True n)) = fst (snd (client_GetDocument rt cfg docID False n))
   \<and> sent_GetDocument rt cfg docID True n = sent_GetDocument rt cfg docID False n
   \<and> snd (snd (client_GetDocument rt cfg docID False n)) = []
   \<and> fst (client_UpdateDocument rt cfg docID content True n) = fst (client_UpdateDocument rt cfg docID content False n)
   \<and> fst (snd (client_UpdateDocument rt cfg docID content True n)) = fst (snd (client_UpdateDocument rt cfg docID content False n))
   \<and> sent_UpdateDocument rt cfg docID content True n = sent_UpdateDocument rt cfg docID content False n
   \<and> snd (snd (client_UpdateDocument rt cfg docID content False n)) = []
   \<and> fst (client_ListDocuments rt cfg True n) = fst (client_ListDocuments rt cfg False n)
   \<and> fst (snd (client_ListDocuments rt cfg True n)) = fst (snd (client_ListDocuments rt cfg False n))
   \<and> sent_ListDocuments rt cfg True n = sent_ListDocuments rt cfg False n
   \<and> snd (snd (client_ListDocuments rt cfg False n)) = []"
  using GetDocument_verbose [of rt cfg docID n] UpdateDocument_verbose [of rt cfg docID content n]
    ListDocuments_verbose [of rt cfg n]
  by (simp add: sent_GetDocument_eq sent_UpdateDocument_eq sent_ListDocuments_eq)

subsection \<open>Request headers\<close>

lemma GetDocument_request_Header:
  "GetDocument_request rt cfg docID = Inr req \<Longrightarrow>
     Header req = [(''Authorization'', [''Bearer '' @ APIKey cfg]),
                   (''Accept'', [''application/json'']),
                   (''Content-Type'', [''application/json''])]"
  by (auto simp: GetDocument_request_def NewRequest_def Header_Set_def Let_def split: option.splits)

lemma UpdateDocument_request_Header:
  "UpdateDocument_request rt cfg docID content = Inr req \<Longrightarrow>
     Header req = [(''Authorization'', [''Bearer '' @ APIKey cfg]),
                   (''Content-Type'', [''application/json'']),
                   (''Accept'', [''application/json''])]"
  by (auto simp: UpdateDocument_request_def NewRequest_def Header_Set_def Let_def split: option.splits)

lemma ListDocuments_request_Header:
  "ListDocuments_request rt cfg = Inr req \<Longrightarrow>
     Header req = [(''Authorization'', [''Bearer '' @ APIKey cfg]),
                   (''Accept'', [''application/json''])] \<and> Body req = None"
  by (auto simp: ListDocuments_request_def NewRequest_def Header_Set_def Let_def split: option.splits)

lemma test_urls:
  "GetDocument_url testConfig = ''https://test.outline.com/api/documents.info''"
  "UpdateDocument_url testConfig = ''https://test.outline.com/api/documents.update''"
  "ListDocuments_url testConfig = ''https://test.outline.com/api/documents.list''"
  by (simp_all add: GetDocument_url_def UpdateDocument_url_def ListDocuments_url_def
      normalizeURL_def TrimRight_def testConfig_def)

text \<open>
  C3 (as stated, refuted): the request that ListDocuments hands to the HTTP client has
  the Authorization and Accept headers and no Content-Type header; it has no body.
\<close>

theorem C3_ListDocuments_sets_no_Content_Type:
  "sent_ListDocuments (serve \<lparr>Status = ''200 OK'', StatusCode = 200, ReadAll_Body = Inr ''{}''\<rparr>)
     testConfig False ()
   = [\<lparr>Method = ''POST'', URL = ''https://test.outline.com/api/documents.list'',
       Header = [(''Authorization'', [''Bearer test-key'']), (''Accept'', [''application/json''])],
       Body = None\<rparr>]"
  by (simp add: sent_ListDocuments_eq ListDocuments_request_def NewRequest_def serve_def
      Header_Set_def test_urls) (simp add: testConfig_def)

text \<open>
  C3 (amended): every HTTP request that the transport client hands to the HTTP client
  for GetDocument, UpdateDocument and ListDocuments carries an Authorization header
  equal to \<^verbatim>\<open>Bearer\<close>, a space and \<^verbatim>\<open>Config.APIKey\<close>, and the Accept header
  \<^verbatim>\<open>application/json\<close>. The requests of GetDocument and UpdateDocument, which have a JSON
  body, also carry the Content-Type header \<^verbatim>\<open>application/json\<close>; the request of
  ListDocuments, which has no body, carries no Content-Type header.
\<close>

theorem C3_request_headers:
  "(\<forall>req \<in> set (sent_GetDocument rt cfg docID v n).
       map_of (Header req) ''Authorization'' = Some [''Bearer '' @ APIKey cfg]
     \<and> map_of (Header req) ''Accept'' = Some [''application/json'']
     \<and> map_of (Header req) ''Content-Type'' = Some [''application/json''])
   \<and> (\<forall>req \<in> set (sent_UpdateDocument rt cfg docID content v n).
       map_of (Header req) ''Authorization'' = Some [''Bearer '' @ APIKey cfg]
     \<and> map_of (Header req) ''Accept'' = Some [''application/json'']
     \<and> map_of (Header req) ''Content-Type'' = Some [''application/json''])
   \<and> (\<forall>req \<in> set (sent_ListDocuments rt cfg v n).
       map_of (Header req) ''Authorization'' = Some [''Bearer '' @ APIKey cfg]
     \<and> map_of (Header req) ''Accept'' = Some [''application/json'']
     \<and> map_of (Header req) ''Content-Type'' = None
     \<and> Body req = None)"
proof (intro conjI ballI)
  fix req assume "req \<in> set (sent_GetDocument rt cfg docID v n)"
  then have r: "GetDocument_request rt cfg docID = Inr req"
    by (auto simp: sent_GetDocument_eq split: sum.splits)
  show "map_of (Header req) ''Authorization'' = Some [''Bearer '' @ APIKey cfg]"
    and "map_of (Header req) ''Accept'' = Some [''application/json'']"
    and "map_of (Header req) ''Content-Type'' = Some [''application/json'']"
    by (simp_all add: GetDocument_request_Header [OF r])
next
  fix req assume "req \<in> set (sent_UpdateDocument rt cfg docID content v n)"
  then have r: "UpdateDocument_request rt cfg docID content = Inr req"
    by (auto simp: sent_UpdateDocument_eq split: sum.splits)
  show "map_of (Header req) ''Authorization'' = Some [''Bearer '' @ APIKey cfg]"
    and "map_of (Header req) ''Accept'' = Some [''application/json'']"
    and "map_of (Header req) ''Content-Type'' = Some [''application/json'']"
    by (simp_all add: UpdateDocument_request_Header [OF r])
next
  fix req assume "req \<in> set (sent_ListDocuments rt cfg v n)"
  then have r: "ListDocuments_request rt cfg = Inr req"
    by (auto simp: sent_ListDocuments_eq split: sum.splits)
  show "map_of (Header req) ''Authorization'' = Some [''Bearer '' @ APIKey cfg]"
    and "map_of (Header req) ''Accept'' = Some [''application/json'']"
    and "map_of (Header req) ''Content-Type'' = None"
    and "Body req = None"
    by (simp_all add: ListDocuments_request_Header [OF r])
qed

lemma sent_test_nonempty:
  "sent_GetDocument (serve resp) testConfig docID v () \<noteq> []"
  "sent_UpdateDocument (serve resp) testConfig docID content v () \<noteq> []"
  "sent_ListDocuments (serve resp) testConfig v () \<noteq> []"
  by (simp_all add: sent_GetDocument_eq sent_UpdateDocument_eq sent_ListDocuments_eq
      GetDocument_request_def UpdateDocument_request_def ListDocuments_request_def
      NewRequest_def serve_def Let_def)

theorem C3_request_headers_witness:
  "sent_GetDocument (serve \<lparr>Status = ''200 OK'', StatusCode = 200, ReadAll_Body = Inr ''{}''\<rparr>)
      testConfig ''doc123'' False () \<noteq> []
   \<and> list_all (\<lambda>req. map_of (Header req) ''Authorization'' = Some [''Bearer test-key'']
        \<and> map_of (Header req) ''Accept'' = Some [''application/json'']
        \<and> map_of (Header req) ''Content-Type'' = Some [''application/json''])
      (sent_GetDocument (serve \<lparr>Status = ''200 OK'', StatusCode = 200, ReadAll_Body = Inr ''{}''\<rparr>)
         testConfig ''doc123'' False ())
   \<and> sent_UpdateDocument (serve \<lparr>Status = ''200 OK'', StatusCode = 200, ReadAll_Body = Inr ''{}''\<rparr>)
      testConfig ''doc123'' ''# Updated Content'' False () \<noteq> []
   \<and> list_all (\<lambda>req. map_of (Header req) ''Authorization'' = Some [''Bearer test-key'']
        \<and> map_of (Header req) ''Accept'' = Some [''application/json'']
        \<and> map_of (Header req) ''Content-Type'' = Some [''application/json''])
      (sent_UpdateDocument (serve \<lparr>Status = ''200 OK'', StatusCode = 200, ReadAll_Body = Inr ''{}''\<rparr>)
         testConfig ''doc123'' ''# Updated Content'' False ())
   \<and> sent_ListDocuments (serve \<lparr>Status = ''200 OK'', StatusCode = 200, ReadAll_Body = Inr ''{}''\<rparr>)
      testConfig False () \<noteq> []
   \<and> list_all (\<lambda>req. map_of (Header req) ''Authorization'' = Some [''Bearer test-key'']
        \<and> map_of (Header req) ''Accept'' = Some [''application/json'']
        \<and> map_of (Header req) ''Content-Type'' = None
        \<and> Body req = None)
      (sent_ListDocuments (serve \<lparr>Status = ''200 OK'', StatusCode = 200, ReadAll_Body = Inr ''{}''\<rparr>)
         testConfig False ())"
  using C3_request_headers [of "serve \<lparr>Status = ''200 OK'', StatusCode = 200, ReadAll_Body = Inr ''{}''\<rparr>"
      testConfig "''doc123''" False "()" "''# Updated Content''"]
    sent_test_nonempty [of "\<lparr>Status = ''200 OK'', StatusCode = 200, ReadAll_Body = Inr ''{}''\<rparr>"]
  by (simp add: list_all_iff testConfig_def)

subsection \<open>Error responses of GetDocument\<close>

text \<open>What the decoder does with the \<^verbatim>\<open>{error, message}\<close> struct, member by member.\<close>

lemma error_not_message: "field_match ''error'' k \<Longrightarrow> \<not> field_match ''message'' k"
  by (simp add: field_match_def foldName_tags)

lemma apiError_field_step:
  "apiError_field k x a =
     (\<lparr>Error = member_value ''error'' (Error a) (k, x),
       Message = member_value ''message'' (Message a) (k, x)\<rparr>,
      if member_fits (k, x) then None else Some (UnmarshalTypeError (json_kind x)))"
  by (cases a; cases x)
     (auto simp: apiError_field_def dec_string_def member_value_def member_fits_def json_kind_def
       dest: error_not_message)

lemma dec_apiError_members:
  "foldl (\<lambda>acc m. case apiError_field (fst m) (snd m) (fst acc) of
            (v, e) \<Rightarrow> (v, saveError (snd acc) e)) (a, e0) ms = (a', e')
   \<Longrightarrow> a' = \<lparr>Error = foldl (member_value ''error'') (Error a) ms,
              Message = foldl (member_value ''message'') (Message a) ms\<rparr>
       \<and> (e' = None \<longleftrightarrow> e0 = None \<and> list_all member_fits ms)"
proof (induction ms arbitrary: a e0)
  case Nil
  then show ?case by (cases a) auto
next
  case (Cons m ms)
  show ?case
    using Cons.IH [of "fst (apiError_field (fst m) (snd m) a)"
        "saveError e0 (snd (apiError_field (fst m) (snd m) a))"] Cons.prems
    by (auto simp: apiError_field_step saveError_def split: option.splits if_splits)
qed

lemma dec_apiError_characterised:
  "snd (dec_apiError j \<lparr>Error = [], Message = []\<rparr>) = None \<longleftrightarrow> is_envelope j"
  "is_envelope j \<Longrightarrow> fst (dec_apiError j \<lparr>Error = [], Message = []\<rparr>)
      = \<lparr>Error = envelope_value ''error'' j, Message = envelope_value ''message'' j\<rparr>"
proof -
  show "snd (dec_apiError j \<lparr>Error = [], Message = []\<rparr>) = None \<longleftrightarrow> is_envelope j"
  proof (cases j)
    case (JObject ms)
    obtain a' e' where f: "foldl (\<lambda>acc m. case apiError_field (fst m) (snd m) (fst acc) of
            (v, e) \<Rightarrow> (v, saveError (snd acc) e)) (\<lparr>Error = [], Message = []\<rparr>, None) ms = (a', e')"
      by (meson surj_pair)
    from dec_apiError_members [OF f] f JObject show ?thesis
      by (simp add: dec_apiError_def dec_struct_def is_envelope_def)
  qed (simp_all add: dec_apiError_def dec_struct_def is_envelope_def)
  show "fst (dec_apiError j \<lparr>Error = [], Message = []\<rparr>)
      = \<lparr>Error = envelope_value ''error'' j, Message = envelope_value ''message'' j\<rparr>"
    if "is_envelope j"
  proof (cases j)
    case (JObject ms)
    obtain a' e' where f: "foldl (\<lambda>acc m. case apiError_field (fst m) (snd m) (fst acc) of
            (v, e) \<Rightarrow> (v, saveError (snd acc) e)) (\<lparr>Error = [], Message = []\<rparr>, None) ms = (a', e')"
      by (meson surj_pair)
    from dec_apiError_members [OF f] f JObject show ?thesis
      by (simp add: dec_apiError_def dec_struct_def envelope_value_def)
  qed (use that in \<open>simp_all add: dec_apiError_def dec_struct_def is_envelope_def envelope_value_def\<close>)
qed

lemma Unmarshal_apiError_characterised:
  "Unmarshal dec_apiError body \<lparr>Error = [], Message = []\<rparr> =
     (case json_parse body of
        None \<Rightarrow> Inl SyntaxError
      | Some j \<Rightarrow>
          if is_envelope j
          then Inr \<lparr>Error = envelope_value ''error'' j, Message = envelope_value ''message'' j\<rparr>
          else Inl (the (snd (dec_apiError j \<lparr>Error = [], Message = []\<rparr>))))"
proof (cases "json_parse body")
  case None
  then show ?thesis by (simp add: Unmarshal_def)
next
  case (Some j)
  obtain a e where d: "dec_apiError j \<lparr>Error = [], Message = []\<rparr> = (a, e)"
    by (meson surj_pair)
  with dec_apiError_characterised [of j] Some show ?thesis
    by (cases e) (auto simp: Unmarshal_def)
qed

lemma serve_GetDocument_request:
  "GetDocument_request (serve resp) testConfig docID =
     Inr \<lparr>Method = ''POST'', URL = ''https://test.outline.com/api/documents.info'',
          Header = [(''Authorization'', [''Bearer test-key'']), (''Accept'', [''application/json'']),
                    (''Content-Type'', [''application/json''])],
          Body = Some (GetDocument_payload (serve resp) docID)\<rparr>"
  by (simp add: GetDocument_request_def NewRequest_def serve_def Header_Set_def test_urls)
     (simp add: testConfig_def)

text \<open>
  C5 (as stated, refuted): a body that \<^verbatim>\<open>json.Unmarshal\<close> accepts need not be an
  \<^verbatim>\<open>{error, message}\<close> envelope. For the body \<^verbatim>\<open>{}\<close> with status 500, and for a body with
  only a \<^verbatim>\<open>data\<close> member with status 502, the error is \<^verbatim>\<open>API error:  - \<close>: it has the members
  of no envelope and reports neither the status code nor the body.
\<close>

theorem C5_empty_object_gives_empty_API_error:
  \<open>json_parse ''{}'' = Some (JObject [])
   \<and> fst (client_GetDocument
        (serve \<lparr>Status = ''500 Internal Server Error'', StatusCode = 500, ReadAll_Body = Inr ''{}''\<rparr>)
        testConfig ''doc123'' False ())
     = (None, Some ''API error:  - '')
   \<and> fst (client_GetDocument
        (serve \<lparr>Status = ''502 Bad Gateway'', StatusCode = 502,
                ReadAll_Body = Inr ''{"data":{"id":"doc123"}}''\<rparr>)
        testConfig ''doc123'' False ())
     = (None, Some ''API error:  - '')\<close>
  by code_simp

text \<open>
  C5 (amended): for every non-200 HTTP response to GetDocument, the client returns an
  error and no Document. When the body of the response is read: if the body is the
  JSON value \<^verbatim>\<open>null\<close> or a JSON object in which every member whose key matches \<^verbatim>\<open>error\<close> or
  \<^verbatim>\<open>message\<close> (ignoring case) is a string or \<^verbatim>\<open>null\<close>, the error message is
  \<^verbatim>\<open>API error: {error} - {message}\<close>, where each of the two is the unescaped value of the
  last string member matching its name and is empty when there is none; otherwise
  (the body is not valid JSON, or is an array, a string, a number or a boolean, or has
  such a member that is neither a string nor \<^verbatim>\<open>null\<close>) the error message is
  \<^verbatim>\<open>unexpected status code: {code}, body: {body}\<close>.
\<close>

theorem C5_GetDocument_non_200_message:
  assumes "GetDocument_request rt cfg docID = Inr req"
    and "Do rt req n = (Inr resp, n')"
    and "StatusCode resp \<noteq> 200"
  shows "fst (fst (client_GetDocument rt cfg docID v n)) = None
    \<and> snd (fst (client_GetDocument rt cfg docID v n)) \<noteq> None
    \<and> (\<forall>body. ReadAll_Body resp = Inr body \<longrightarrow>
          snd (fst (client_GetDocument rt cfg docID v n)) =
            Some (case json_parse body of
                    None \<Rightarrow> ''unexpected status code: '' @ itoa (StatusCode resp)
                              @ '', body: '' @ body
                  | Some j \<Rightarrow>
                      if is_envelope j
                      then ''API error: '' @ envelope_value ''error'' j
                             @ '' - '' @ envelope_value ''message'' j
                      else ''unexpected status code: '' @ itoa (StatusCode resp)
                             @ '', body: '' @ body))"
  using assms
  by (auto simp: client_GetDocument_def Let_def StatusOK_def Unmarshal_apiError_characterised
      split: sum.splits option.splits)

lemma message_escaped_envelope:
  \<open>(case json_parse escaped_envelope of
       None \<Rightarrow> ''unexpected status code: '' @ itoa 404 @ '', body: '' @ escaped_envelope
     | Some j \<Rightarrow>
         if is_envelope j
         then ''API error: '' @ envelope_value ''error'' j @ '' - '' @ envelope_value ''message'' j
         else ''unexpected status code: '' @ itoa 404 @ '', body: '' @ escaped_envelope)
    = ''API error: not_found - Document "doc123" not found''\<close>
  by code_simp

lemma message_plain_text:
  \<open>(case json_parse ''Not Found'' of
       None \<Rightarrow> ''unexpected status code: '' @ itoa 404 @ '', body: '' @ ''Not Found''
     | Some j \<Rightarrow>
         if is_envelope j
         then ''API error: '' @ envelope_value ''error'' j @ '' - '' @ envelope_value ''message'' j
         else ''unexpected status code: '' @ itoa 404 @ '', body: '' @ ''Not Found'')
    = ''unexpected status code: 404, body: Not Found''\<close>
  by code_simp

lemma message_ill_typed_members:
  \<open>(case json_parse ''{"error":5,"message":7}'' of
       None \<Rightarrow> ''unexpected status code: '' @ itoa 400 @ '', body: '' @ ''{"error":5,"message":7}''
     | Some j \<Rightarrow>
         if is_envelope j
         then ''API error: '' @ envelope_value ''error'' j @ '' - '' @ envelope_value ''message'' j
         else ''unexpected status code: '' @ itoa 400 @ '', body: '' @ ''{"error":5,"message":7}'')
    = ''unexpected status code: 400, body: {"error":5,"message":7}''\<close>
  by code_simp

lemma message_folded_keys:
  \<open>(case json_parse ''{"Error":"forbidden","MESSAGE":"no access","code":403}'' of
       None \<Rightarrow> ''unexpected status code: '' @ itoa 403 @ '', body: ''
                 @ ''{"Error":"forbidden","MESSAGE":"no access","code":403}''
     | Some j \<Rightarrow>
         if is_envelope j
         then ''API error: '' @ envelope_value ''error'' j @ '' - '' @ envelope_value ''message'' j
         else ''unexpected status code: '' @ itoa 403 @ '', body: ''
                 @ ''{"Error":"forbidden","MESSAGE":"no access","code":403}'')
    = ''API error: forbidden - no access''\<close>
  by code_simp

theorem C5_GetDocument_non_200_message_witness:
  \<open>fst (client_GetDocument
      (serve \<lparr>Status = ''404 Not Found'', StatusCode = 404, ReadAll_Body = Inr escaped_envelope\<rparr>)
      testConfig ''doc123'' False ())
    = (None, Some ''API error: not_found - Document "doc123" not found'')
   \<and> fst (client_GetDocument
      (serve \<lparr>Status = ''404 Not Found'', StatusCode = 404, ReadAll_Body = Inr ''Not Found''\<rparr>)
      testConfig ''doc123'' False ())
    = (None, Some ''unexpected status code: 404, body: Not Found'')
   \<and> fst (client_GetDocument
      (serve \<lparr>Status = ''400 Bad Request'', StatusCode = 400,
              ReadAll_Body = Inr ''{"error":5,"message":7}''\<rparr>)
      testConfig ''doc123'' False ())
    = (None, Some ''unexpected status code: 400, body: {"error":5,"message":7}'')
   \<and> fst (client_GetDocument
      (serve \<lparr>Status = ''403 Forbidden'', StatusCode = 403,
              ReadAll_Body = Inr ''{"Error":"forbidden","MESSAGE":"no access","code":403}''\<rparr>)
      testConfig ''doc123'' False ())
    = (None, Some ''API error: forbidden - no access'')\<close>
proof -
  let ?r1 = "\<lparr>Status = ''404 Not Found'', StatusCode = 404, ReadAll_Body = Inr escaped_envelope\<rparr>"
  let ?r2 = "\<lparr>Status = ''404 Not Found'', StatusCode = 404, ReadAll_Body = Inr ''Not Found''\<rparr>"
  let ?r3 = \<open>\<lparr>Status = ''400 Bad Request'', StatusCode = 400,
              ReadAll_Body = Inr ''{"error":5,"message":7}''\<rparr>\<close>
  let ?r4 = \<open>\<lparr>Status = ''403 Forbidden'', StatusCode = 403,
              ReadAll_Body = Inr ''{"Error":"forbidden","MESSAGE":"no access","code":403}''\<rparr>\<close>
  have d: "Do (serve r) req () = (Inr r, ())" for r req by (simp add: serve_def)
  have c: "StatusCode ?r1 \<noteq> 200" "StatusCode ?r2 \<noteq> 200" "StatusCode ?r3 \<noteq> 200"
    "StatusCode ?r4 \<noteq> 200" by simp_all
  note t1 = C5_GetDocument_non_200_message [OF serve_GetDocument_request d c(1), of "''doc123''" False]
  note t2 = C5_GetDocument_non_200_message [OF serve_GetDocument_request d c(2), of "''doc123''" False]
  note t3 = C5_GetDocument_non_200_message [OF serve_GetDocument_request d c(3), of "''doc123''" False]
  note t4 = C5_GetDocument_non_200_message [OF serve_GetDocument_request d c(4), of "''doc123''" False]
  have m1: "snd (fst (client_GetDocument (serve ?r1) testConfig ''doc123'' False ()))
      = Some (''API error: not_found - Document '' @ [CHR 0x22] @ ''doc123'' @ [CHR 0x22] @ '' not found'')"
    using t1 [THEN conjunct2, THEN conjunct2, rule_format, of escaped_envelope]
    unfolding response.select_convs message_escaped_envelope by simp
  have m2: "snd (fst (client_GetDocument (serve ?r2) testConfig ''doc123'' False ()))
      = Some ''unexpected status code: 404, body: Not Found''"
    using t2 [THEN conjunct2, THEN conjunct2, rule_format, of "''Not Found''"]
    unfolding response.select_convs message_plain_text by simp
  have m3: \<open>snd (fst (client_GetDocument (serve ?r3) testConfig ''doc123'' False ()))
      = Some ''unexpected status code: 400, body: {"error":5,"message":7}''\<close>
    using t3 [THEN conjunct2, THEN conjunct2, rule_format, of \<open>''{"error":5,"message":7}''\<close>]
    unfolding response.select_convs message_ill_typed_members by simp
  have m4: \<open>snd (fst (client_GetDocument (serve ?r4) testConfig ''doc123'' False ()))
      = Some ''API error: forbidden - no access''\<close>
    using t4 [THEN conjunct2, THEN conjunct2, rule_format,
        of \<open>''{"Error":"forbidden","MESSAGE":"no access","code":403}''\<close>]
    unfolding response.select_convs message_folded_keys by simp
  from t1 t2 t3 t4 m1 m2 m3 m4 show ?thesis
    by (simp add: prod_eq_iff)
qed

subsection \<open>The commands pull and push\<close>

lemma ExactArgs_one: "ExactArgs 1 [a] = None" "ExactArgs (Suc 0) [a] = None"
  by (simp_all add: ExactArgs_def)

text \<open>
  C6: for every document id whose file \<^verbatim>\<open>{id}.md\<close> does not exist, push invokes no
  operation of the client (the list of calls, the state of the client and the whole
  world are as before), and, the configuration being loaded, it fails with a message
  that starts with \<^verbatim>\<open>reading file: \<close> (followed by the error of \<^verbatim>\<open>os.ReadFile\<close>).
\<close>

theorem C6_push_missing_file:
  assumes "files w (docID @ ''.md'') = None"
  shows "calls (snd (pushCmd env [docID] w)) = calls w
    \<and> snd (pushCmd env [docID] w) = w
    \<and> (\<forall>cfg. LoadConfig env = Inr cfg \<longrightarrow>
          fst (pushCmd env [docID] w) =
            Returned (Some (''reading file: '' @ ''open '' @ docID @ ''.md: no such file or directory'')))"
  using assms
  by (auto simp: ExactArgs_one pushCmd_def pushCmd_RunE_def os_ReadFile_def Let_def split: sum.splits)

theorem C6_push_missing_file_witness:
  "files (empty_dir ()) (''doc456'' @ ''.md'') = None
   \<and> calls (snd (pushCmd (test_env push_stub) [''doc456''] (empty_dir ()))) = []
   \<and> fst (pushCmd (test_env push_stub) [''doc456''] (empty_dir ()))
       = Returned (Some ''reading file: open doc456.md: no such file or directory'')"
proof -
  have h: "files (empty_dir ()) (''doc456'' @ ''.md'') = None"
    by (simp add: empty_dir_def)
  have c: "LoadConfig (test_env push_stub) = Inr testConfig"
    by (simp add: test_env_def)
  from C6_push_missing_file [OF h, of "test_env push_stub"] c h
  show ?thesis by (simp add: empty_dir_def)
qed

text \<open>
  C7: for every document id, when pull runs against a client whose GetDocument returns
  a Document (and no error), the command calls \<^verbatim>\<open>os.WriteFile\<close> with the name \<^verbatim>\<open>{id}.md\<close>
  (relative to the working directory) and exactly the bytes of the Document's Text;
  when the write succeeds, pull succeeds, that file holds the Text byte for byte and
  no other file has changed.
\<close>

theorem C7_pull_writes_Text_verbatim:
  assumes "LoadConfig env = Inr cfg"
    and "GetDocument (clientFactory env cfg) docID (verbose env) (client_state w) = ((Some doc, None), s', out)"
  shows "files (snd (pullCmd env [docID] w)) =
           fst (os_WriteFile (write_outcome env (docID @ ''.md'') (Text doc)) (docID @ ''.md'') (Text doc) (files w))
    \<and> (write_outcome env (docID @ ''.md'') (Text doc) = WriteOk \<longrightarrow>
          fst (pullCmd env [docID] w) = Returned None
        \<and> files (snd (pullCmd env [docID] w)) = (files w)(docID @ ''.md'' \<mapsto> Text doc))"
  using assms
  by (auto simp: ExactArgs_one pullCmd_def pullCmd_RunE_def os_WriteFile_def Let_def split: write_result.splits)

theorem C7_pull_writes_Text_verbatim_witness:
  "fst (pullCmd (test_env pull_ok_stub) [''doc123''] (empty_dir ())) = Returned None
   \<and> files (snd (pullCmd (test_env pull_ok_stub) [''doc123''] (empty_dir ()))) ''doc123.md''
       = Some ''# Test Content''
   \<and> dom (files (snd (pullCmd (test_env pull_ok_stub) [''doc123''] (empty_dir ())))) = {''doc123.md''}"
proof -
  have c: "LoadConfig (test_env pull_ok_stub) = Inr testConfig"
    by (simp add: test_env_def)
  have g: "GetDocument (clientFactory (test_env pull_ok_stub) testConfig) ''doc123''
             (verbose (test_env pull_ok_stub)) (client_state (empty_dir ()))
           = ((Some \<lparr>ID = ''doc123'', Title = ''Test Doc'', Text = ''# Test Content'', Version = 0\<rparr>, None),
              (), [])"
    by (simp add: test_env_def pull_ok_stub_def MockClient_def)
  have o: "write_outcome (test_env pull_ok_stub) n d = WriteOk" for n d
    by (simp add: test_env_def)
  from C7_pull_writes_Text_verbatim [OF c g] o
  show ?thesis by (simp add: empty_dir_def os_WriteFile_def)
qed

lemma os_WriteFile_effect:
  assumes "os_WriteFile res name data fs = (fs', e)"
  shows "(\<forall>n. n \<noteq> name \<longrightarrow> fs' n = fs n)
    \<and> (e = None \<longrightarrow> fs' name = Some data)
    \<and> (fs' name = fs name \<or> (\<exists>k. fs' name = Some (take k data)))"
proof (cases res)
  case WriteOk
  with assms have "fs' = fs(name \<mapsto> data)" "e = None" by (auto simp: os_WriteFile_def)
  moreover have "data = take (length data) data" by simp
  ultimately show ?thesis by (metis fun_upd_apply)
next
  case (OpenError x)
  with assms show ?thesis by (auto simp: os_WriteFile_def)
next
  case (WriteError k x)
  with assms show ?thesis by (auto simp: os_WriteFile_def)
next
  case (CloseError x)
  with assms have "fs' = fs(name \<mapsto> data)" "e = Some x" by (auto simp: os_WriteFile_def)
  moreover have "data = take (length data) data" by simp
  ultimately show ?thesis by (metis fun_upd_apply option.distinct(1))
qed

lemma pullCmd_fetch_error:
  assumes "LoadConfig env = Inr cfg"
    and "GetDocument (clientFactory env cfg) docID (verbose env) (client_state w) = ((doc, Some e), s', out)"
  shows "fst (pullCmd env [docID] w) = Returned (Some (''fetching document: '' @ e))"
    and "files (snd (pullCmd env [docID] w)) = files w"
  using assms by (simp_all add: ExactArgs_one pullCmd_def pullCmd_RunE_def Let_def)

lemma pullCmd_fetch_ok:
  assumes "LoadConfig env = Inr cfg"
    and "GetDocument (clientFactory env cfg) docID (verbose env) (client_state w) = ((Some d, None), s', out)"
    and "os_WriteFile (write_outcome env (docID @ ''.md'') (Text d)) (docID @ ''.md'') (Text d) (files w) = (fs', e)"
  shows "fst (pullCmd env [docID] w) = Returned (map_option ((@) ''writing file: '') e)"
    and "files (snd (pullCmd env [docID] w)) = fs'"
    and "calls (snd (pullCmd env [docID] w)) = calls w @ [Call_GetDocument docID (verbose env)]"
  using assms by (auto simp: ExactArgs_one pullCmd_def pullCmd_RunE_def Let_def split: option.splits)

text \<open>
  C8 (as stated, refuted): pull is not atomic with respect to its output file. The
  command writes with \<^verbatim>\<open>os.WriteFile\<close>, which opens (creates or truncates) the file and
  then writes; when the write fails on the way, here because the disk is full after
  four bytes, pull fails with \<^verbatim>\<open>writing file: ...\<close> and leaves \<^verbatim>\<open>doc123.md\<close> with the first
  four bytes of the fourteen of the document: neither the full content nor nothing.
\<close>

theorem C8_pull_can_leave_a_partial_file:
  "fst (pullCmd (disk_full_env pull_ok_stub) [''doc123''] (empty_dir ()))
     = Returned (Some ''writing file: write doc123.md: no space left on device'')
   \<and> files (empty_dir ()) ''doc123.md'' = None
   \<and> files (snd (pullCmd (disk_full_env pull_ok_stub) [''doc123''] (empty_dir ()))) ''doc123.md''
     = Some ''# Te''"
  by (simp add: ExactArgs_one pullCmd_def pullCmd_RunE_def disk_full_env_def test_env_def pull_ok_stub_def
      MockClient_def empty_dir_def os_WriteFile_def Let_def)

text \<open>
  C8 (amended): for every document id, if the client's GetDocument returns an error
  \<open>e\<close>, pull fails with the message \<^verbatim>\<open>fetching document: {e}\<close> and changes no file (so it
  creates none). If GetDocument returns a Document and no error, pull changes no file
  other than \<^verbatim>\<open>{id}.md\<close>; it returns \<^verbatim>\<open>nil\<close> or fails with \<^verbatim>\<open>writing file: {cause}\<close>; when it
  returns \<^verbatim>\<open>nil\<close>, \<^verbatim>\<open>{id}.md\<close> holds the full Text; in every case \<^verbatim>\<open>{id}.md\<close> is as before
  or holds a prefix of the Text (no atomicity across a failing \<^verbatim>\<open>os.WriteFile\<close>).
\<close>

theorem C8_pull_file_effects:
  assumes "LoadConfig env = Inr cfg"
    and "GetDocument (clientFactory env cfg) docID (verbose env) (client_state w) = ((doc, err), s', out)"
  shows "(\<forall>e. err = Some e \<longrightarrow>
            fst (pullCmd env [docID] w) = Returned (Some (''fetching document: '' @ e))
          \<and> files (snd (pullCmd env [docID] w)) = files w)
    \<and> (\<forall>d. err = None \<and> doc = Some d \<longrightarrow>
            (\<forall>name. name \<noteq> docID @ ''.md'' \<longrightarrow> files (snd (pullCmd env [docID] w)) name = files w name)
          \<and> (fst (pullCmd env [docID] w) = Returned None \<longrightarrow>
               files (snd (pullCmd env [docID] w)) (docID @ ''.md'') = Some (Text d))
          \<and> (fst (pullCmd env [docID] w) = Returned None
              \<or> (\<exists>e. fst (pullCmd env [docID] w) = Returned (Some (''writing file: '' @ e))))
          \<and> (files (snd (pullCmd env [docID] w)) (docID @ ''.md'') = files w (docID @ ''.md'')
              \<or> (\<exists>k. files (snd (pullCmd env [docID] w)) (docID @ ''.md'') = Some (take k (Text d)))))"
proof (intro conjI allI impI)
  fix e assume "err = Some e"
  with assms pullCmd_fetch_error [of env cfg docID w doc e s' out]
  show "fst (pullCmd env [docID] w) = Returned (Some (''fetching document: '' @ e))"
    and "files (snd (pullCmd env [docID] w)) = files w"
    by simp_all
next
  fix d assume ok: "err = None \<and> doc = Some d"
  obtain fs' e where wr:
    "os_WriteFile (write_outcome env (docID @ ''.md'') (Text d)) (docID @ ''.md'') (Text d) (files w) = (fs', e)"
    by (cases "os_WriteFile (write_outcome env (docID @ ''.md'') (Text d)) (docID @ ''.md'') (Text d) (files w)")
  from assms ok have get:
    "GetDocument (clientFactory env cfg) docID (verbose env) (client_state w) = ((Some d, None), s', out)"
    by simp
  note res = pullCmd_fetch_ok [OF assms(1) get wr]
  note eff = os_WriteFile_effect [OF wr]
  show "fst (pullCmd env [docID] w) = Returned None
      \<or> (\<exists>e. fst (pullCmd env [docID] w) = Returned (Some (''writing file: '' @ e)))"
    using res(1) by (cases e) simp_all
  show "files (snd (pullCmd env [docID] w)) (docID @ ''.md'') = files w (docID @ ''.md'')
      \<or> (\<exists>k. files (snd (pullCmd env [docID] w)) (docID @ ''.md'') = Some (take k (Text d)))"
    using res(2) eff by simp
  { fix name assume "name \<noteq> docID @ ''.md''"
    then show "files (snd (pullCmd env [docID] w)) name = files w name"
      using res(2) eff by simp }
  { assume "fst (pullCmd env [docID] w) = Returned None"
    then have "e = None" using res(1) by simp
    then show "files (snd (pullCmd env [docID] w)) (docID @ ''.md'') = Some (Text d)"
      using res(2) eff by simp }
qed

theorem C8_pull_file_effects_witness:
  "fst (pullCmd (test_env pull_error_stub) [''doc456''] (empty_dir ()))
     = Returned (Some ''fetching document: API error'')
   \<and> files (snd (pullCmd (test_env pull_error_stub) [''doc456''] (empty_dir ()))) = Map.empty
   \<and> fst (pullCmd (test_env pull_ok_stub) [''doc123''] (empty_dir ())) = Returned None
   \<and> files (snd (pullCmd (test_env pull_ok_stub) [''doc123''] (empty_dir ()))) ''doc123.md''
     = Some ''# Test Content''"
proof -
  have c: "LoadConfig (test_env client) = Inr testConfig" for client :: "unit Client"
    by (simp add: test_env_def)
  have g1: "GetDocument (clientFactory (test_env pull_error_stub) testConfig) ''doc456''
             (verbose (test_env pull_error_stub)) (client_state (empty_dir ()))
           = ((None, Some ''API error''), (), [])"
    by (simp add: test_env_def pull_error_stub_def MockClient_def)
  have g2: "GetDocument (clientFactory (test_env pull_ok_stub) testConfig) ''doc123''
             (verbose (test_env pull_ok_stub)) (client_state (empty_dir ()))
           = ((Some \<lparr>ID = ''doc123'', Title = ''Test Doc'', Text = ''# Test Content'', Version = 0\<rparr>, None),
              (), [])"
    by (simp add: test_env_def pull_ok_stub_def MockClient_def)
  have r2: "fst (pullCmd (test_env pull_ok_stub) [''doc123''] (empty_dir ())) = Returned None"
    by (simp add: ExactArgs_one pullCmd_def pullCmd_RunE_def test_env_def pull_ok_stub_def MockClient_def
        empty_dir_def os_WriteFile_def Let_def)
  from C8_pull_file_effects [OF c g1] C8_pull_file_effects [OF c g2] r2
  show ?thesis by (simp add: empty_dir_def)
qed

text \<open>
  C1: round trip of pull then push. For every document id and every text \<open>t\<close>: if pull
  runs against a client whose GetDocument(id) returns a Document with Text \<open>t\<close> and
  succeeds (so \<open>t\<close> is in the file \<^verbatim>\<open>{id}.md\<close>), and push then runs for the same id in a
  world where that file is unchanged, then push invokes UpdateDocument exactly once, with
  the id and with a payload equal to \<open>t\<close>.
\<close>

theorem C1_pull_then_push_round_trip:
  assumes "LoadConfig env = Inr cfg"
    and "GetDocument (clientFactory env cfg) docID (verbose env) (client_state w) = ((Some doc, None), s', out)"
    and "pullCmd env [docID] w = (Returned None, w1)"
    and "files w2 (docID @ ''.md'') = files w1 (docID @ ''.md'')"
  shows "calls (snd (pushCmd env [docID] w2)) = calls w2 @ [Call_UpdateDocument docID (Text doc) (verbose env)]
    \<and> client_state (snd (pushCmd env [docID] w2)) =
        fst (snd (UpdateDocument (clientFactory env cfg) docID (Text doc) (verbose env) (client_state w2)))"
proof -
  have "files w1 (docID @ ''.md'') = Some (Text doc)"
    using assms(1-3)
    by (auto simp: ExactArgs_one pullCmd_def pullCmd_RunE_def os_WriteFile_def Let_def split: write_result.splits)
  with assms(4) have "os_ReadFile (docID @ ''.md'') (files w2) = Inr (Text doc)"
    by (simp add: os_ReadFile_def)
  with assms(1) show ?thesis
    by (auto simp: ExactArgs_one pushCmd_def pushCmd_RunE_def Let_def split: prod.splits option.splits)
qed

theorem C1_pull_then_push_round_trip_witness:
  "fst (pullCmd (test_env (mockClient [''test-id''])) [''test-id''] (empty_dir test_documents)) = Returned None
   \<and> calls (snd (pushCmd (test_env (mockClient [''test-id''])) [''test-id'']
        (snd (pullCmd (test_env (mockClient [''test-id''])) [''test-id''] (empty_dir test_documents)))))
     = [Call_GetDocument ''test-id'' False, Call_UpdateDocument ''test-id'' ''Test content'' False]"
proof -
  let ?env = "test_env (mockClient [''test-id''])"
  let ?w = "empty_dir test_documents"
  have c: "LoadConfig ?env = Inr testConfig"
    by (simp add: test_env_def)
  have g: "GetDocument (clientFactory ?env testConfig) ''test-id'' (verbose ?env) (client_state ?w)
           = ((Some \<lparr>ID = ''test-id'', Title = ''Test Document'', Text = ''Test content'', Version = 0\<rparr>, None),
              test_documents, [])"
    by (simp add: test_env_def mockClient_def empty_dir_def test_documents_def)
  have o: "os_WriteFile (write_outcome ?env n d) n d fs = (fs(n \<mapsto> d), None)" for n d fs
    by (simp add: test_env_def os_WriteFile_def)
  have r: "fst (pullCmd ?env [''test-id''] ?w) = Returned None"
    using pullCmd_fetch_ok(1) [OF c g o] by simp
  have k: "calls (snd (pullCmd ?env [''test-id''] ?w)) = [Call_GetDocument ''test-id'' False]"
    using pullCmd_fetch_ok(3) [OF c g o] by (simp add: empty_dir_def test_env_def)
  have p: "pullCmd ?env [''test-id''] ?w = (Returned None, snd (pullCmd ?env [''test-id''] ?w))"
    using r by (simp add: prod_eq_iff)
  from C1_pull_then_push_round_trip [OF c g p refl] r k
  show ?thesis by (simp add: test_env_def)
qed

subsection \<open>A 200 response without a data field\<close>

lemma saveError_None: "saveError saved None = saved"
  by (simp add: saveError_def split: option.split)

lemma dec_struct_ignored_members:
  assumes "\<forall>m \<in> set ms. \<forall>v. field (fst m) (snd m) v = (v, None)"
  shows "foldl (\<lambda>acc m. case field (fst m) (snd m) (fst acc) of
                  (v, e) \<Rightarrow> (v, saveError (snd acc) e)) (old, e0) ms = (old, e0)"
  using assms by (induction ms) (simp_all add: saveError_None)

lemma dec_response_no_data:
  assumes "no_data_field j"
  shows "dec_response dec j old = (old, None)"
proof (cases j)
  case (JObject ms)
  with assms have "\<forall>m \<in> set ms. \<forall>v. Data_field dec (fst m) (snd m) v = (v, None)"
    by (simp add: no_data_field_def list_all_iff Data_field_def)
  with JObject show ?thesis
    by (simp add: dec_response_def dec_struct_def dec_struct_ignored_members)
qed (use assms in \<open>simp_all add: no_data_field_def dec_response_def dec_struct_def\<close>)

text \<open>
  C10 (as stated, refuted): a body can be valid JSON and lack a \<^verbatim>\<open>data\<close> field without
  being an object. For the body \<^verbatim>\<open>[]\<close> with status 200, \<^verbatim>\<open>json.Unmarshal\<close> cannot store an
  array into the response struct, and GetDocument returns no Document and the error
  \<^verbatim>\<open>decoding response (status 200): ...\<close>.
\<close>

theorem C10_array_body_is_a_decode_error:
  \<open>json_parse ''[]'' = Some (JArray [])
   \<and> Unmarshal (dec_response dec_Document) ''[]'' zero_Document = Inl (UnmarshalTypeError ''array'')
   \<and> fst (client_GetDocument
        (serve \<lparr>Status = ''200 OK'', StatusCode = 200, ReadAll_Body = Inr ''[]''\<rparr>)
        testConfig ''doc123'' False ())
     = (None, Some (''decoding response (status 200): ''
                    @ json_error_text (serve \<lparr>Status = ''200 OK'', StatusCode = 200,
                                              ReadAll_Body = Inr ''[]''\<rparr>)
                        (UnmarshalTypeError ''array'')
                    @ nl @ ''Body: []''))\<close>
  by code_simp

text \<open>
  C10 (amended): for every HTTP response to GetDocument with status 200 whose body is
  the JSON value \<^verbatim>\<open>null\<close> or a JSON object none of whose keys matches \<^verbatim>\<open>data\<close> (the match
  ignores case), for example \<^verbatim>\<open>{}\<close>, GetDocument returns a zero-valued Document (empty
  ID, Title and Text, Version 0) with a nil error rather than a decode error; a pull
  of such a response, when the write succeeds, succeeds and writes an empty
  \<^verbatim>\<open>{id}.md\<close>.
\<close>

theorem C10_GetDocument_no_data_field:
  assumes "GetDocument_request rt cfg docID = Inr req"
    and "Do rt req n = (Inr resp, n')"
    and "StatusCode resp = 200"
    and "ReadAll_Body resp = Inr body"
    and "json_parse body = Some j"
    and "no_data_field j"
  shows "fst (client_GetDocument rt cfg docID v n)
           = (Some \<lparr>ID = [], Title = [], Text = [], Version = 0\<rparr>, None)
    \<and> (\<forall>env w. LoadConfig env = Inr cfg \<and> clientFactory env cfg = DefaultClientFactory rt cfg
            \<and> verbose env = v \<and> client_state w = n
            \<and> write_outcome env (docID @ ''.md'') [] = WriteOk \<longrightarrow>
          fst (pullCmd env [docID] w) = Returned None
        \<and> files (snd (pullCmd env [docID] w)) = (files w)(docID @ ''.md'' \<mapsto> []))"
proof -
  have "dec_response dec_Document j zero_Document = (zero_Document, None)"
    using assms(6) by (rule dec_response_no_data)
  with assms(5) have "Unmarshal (dec_response dec_Document) body zero_Document = Inr zero_Document"
    by (simp add: Unmarshal_def)
  with assms(1-4) have get: "client_GetDocument rt cfg docID v n =
      ((Some zero_Document, None), n', snd (snd (client_GetDocument rt cfg docID v n)))"
    by (simp add: client_GetDocument_def Let_def StatusOK_def)
  then have first: "fst (client_GetDocument rt cfg docID v n)
      = (Some \<lparr>ID = [], Title = [], Text = [], Version = 0\<rparr>, None)"
    by (metis fst_conv zero_Document_def)
  have "fst (pullCmd env [docID] w) = Returned None
        \<and> files (snd (pullCmd env [docID] w)) = (files w)(docID @ ''.md'' \<mapsto> [])"
    if "LoadConfig env = Inr cfg \<and> clientFactory env cfg = DefaultClientFactory rt cfg
            \<and> verbose env = v \<and> client_state w = n
            \<and> write_outcome env (docID @ ''.md'') [] = WriteOk"
    for env :: "'a env" and w
  proof -
    have g: "GetDocument (clientFactory env cfg) docID (verbose env) (client_state w)
        = ((Some zero_Document, None), n', snd (snd (client_GetDocument rt cfg docID v n)))"
      using that get by (simp add: DefaultClientFactory_def)
    have o: "os_WriteFile (write_outcome env (docID @ ''.md'') (Text zero_Document)) (docID @ ''.md'')
               (Text zero_Document) (files w) = ((files w)(docID @ ''.md'' \<mapsto> []), None)"
      using that by (simp add: os_WriteFile_def zero_Document_def)
    from that pullCmd_fetch_ok(1,2) [OF _ g o] show ?thesis by simp
  qed
  with first show ?thesis by blast
qed

lemma json_parse_empty_object: "json_parse ''{}'' = Some (JObject [])"
  by code_simp

theorem C10_GetDocument_no_data_field_witness:
  "fst (client_GetDocument
      (serve \<lparr>Status = ''200 OK'', StatusCode = 200, ReadAll_Body = Inr ''{}''\<rparr>)
      testConfig ''doc123'' False ())
     = (Some \<lparr>ID = [], Title = [], Text = [], Version = 0\<rparr>, None)
   \<and> fst (pullCmd (test_env (DefaultClientFactory
             (serve \<lparr>Status = ''200 OK'', StatusCode = 200, ReadAll_Body = Inr ''{}''\<rparr>) testConfig))
           [''doc123''] (empty_dir ())) = Returned None
   \<and> files (snd (pullCmd (test_env (DefaultClientFactory
             (serve \<lparr>Status = ''200 OK'', StatusCode = 200, ReadAll_Body = Inr ''{}''\<rparr>) testConfig))
           [''doc123''] (empty_dir ()))) ''doc123.md'' = Some []"
proof -
  let ?resp = "\<lparr>Status = ''200 OK'', StatusCode = 200, ReadAll_Body = Inr ''{}''\<rparr>"
  let ?env = "test_env (DefaultClientFactory (serve ?resp) testConfig)"
  have d: "Do (serve ?resp) req () = (Inr ?resp, ())" for req by (simp add: serve_def)
  have s: "StatusCode ?resp = 200" and b: "ReadAll_Body ?resp = Inr ''{}''" by simp_all
  have nd: "no_data_field (JObject [])" by (simp add: no_data_field_def)
  have e: "LoadConfig ?env = Inr testConfig
      \<and> clientFactory ?env testConfig = DefaultClientFactory (serve ?resp) testConfig
      \<and> verbose ?env = False \<and> client_state (empty_dir ()) = ()
      \<and> write_outcome ?env (''doc123'' @ ''.md'') [] = WriteOk"
    by (simp add: test_env_def empty_dir_def)
  from C10_GetDocument_no_data_field [OF serve_GetDocument_request d s b json_parse_empty_object nd,
      of "''doc123''" False] e
  show ?thesis by (simp add: empty_dir_def)
qed

subsection \<open>The method set of the interface\<close>

text \<open>
  C2 (the code misses the claim): the interface \<^verbatim>\<open>Client\<close> of api/client.go declares
  three methods, GetDocument, UpdateDocument and ListDocuments, and no
  CreateDocument; the transport client \<^verbatim>\<open>*client\<close> has the same three. The selector
  \<^verbatim>\<open>client.CreateDocument\<close> of \<^verbatim>\<open>createCmd\<close> is therefore not legal on a value of the
  interface, although the double \<^verbatim>\<open>mockClient\<close> of cmd/root_test.go, which does implement
  the interface, provides CreateDocument. The selectors of pull, push and list are
  legal.
\<close>

theorem C2_Client_has_no_CreateDocument:
  "Client_methods = [''GetDocument'', ''UpdateDocument'', ''ListDocuments'']
   \<and> \<not> selector_legal Client_methods createCmd_selector
   \<and> ''CreateDocument'' \<notin> set client_methods
   \<and> ''CreateDocument'' \<in> set mockClient_methods
   \<and> implements mockClient_methods Client_methods
   \<and> implements client_methods Client_methods
   \<and> implements MockClient_methods Client_methods
   \<and> selector_legal Client_methods pullCmd_selector
   \<and> selector_legal Client_methods pushCmd_selector
   \<and> selector_legal Client_methods listCmd_selector"
  by (simp add: Client_methods_def client_methods_def mockClient_methods_def MockClient_methods_def
      selector_legal_def implements_def createCmd_selector_def pullCmd_selector_def
      pushCmd_selector_def listCmd_selector_def)

end
